theory Spec2Isabelle
  imports
    Complex_Main
    "HOL-Library.Product_Lexorder"
    "HOL-Library.List_Lexorder"
    "HOL-Library.Char_ord"
    "HOL-Library.Log_Nat"
begin

section \<open>Values: decimals, identifiers, dates, errors\<close>

text \<open>
  Python's \<open>Decimal\<close> values are decimal fractions; they are modelled as rationals.
  \<open>_q2\<close> is \<open>value.quantize(Decimal("0.01"))\<close> under the rounding mode
  \<open>ROUND_HALF_EVEN\<close> of the default decimal context.
\<close>

type_synonym decimal = rat

definition ZERO :: decimal where
  "ZERO = 0"

definition round_half_even :: "rat \<Rightarrow> int" where
  "round_half_even x =
     (let f = \<lfloor>x\<rfloor>; r = x - of_int f
      in if r < 1 / 2 then f
         else if 1 / 2 < r then f + 1
         else if even f then f else f + 1)"

definition q2 :: "decimal \<Rightarrow> decimal" where
  "q2 v = of_int (round_half_even (v * 100)) / 100"

text \<open>
  The operators \<open>+\<close>, \<open>-\<close>, \<open>*\<close> and \<open>/\<close> of \<open>Decimal\<close> return the exact result rounded to the
  precision of the default context, 28 significant digits, half to even. \<open>adjusted x\<close>
  is the decimal exponent of the leading digit of a nonzero \<open>x\<close>, as
  \<open>Decimal.adjusted()\<close>; the quantum of the rounded result is 27 places below it.
\<close>

definition prec :: int where
  "prec = 28"

definition adjusted :: "decimal \<Rightarrow> int" where
  "adjusted x =
     (let (a, b) = quotient_of \<bar>x\<bar>;
          e = int (floorlog 10 (nat a)) - int (floorlog 10 (nat b))
      in if 10 powi e \<le> \<bar>x\<bar> then e else e - 1)"

definition context_round :: "decimal \<Rightarrow> decimal" where
  "context_round x =
     (if x = 0 then 0
      else (let quantum = 10 powi (adjusted x - (prec - 1))
            in of_int (round_half_even (x / quantum)) * quantum))"

definition decimal_add :: "decimal \<Rightarrow> decimal \<Rightarrow> decimal" where
  "decimal_add x y = context_round (x + y)"

definition decimal_sub :: "decimal \<Rightarrow> decimal \<Rightarrow> decimal" where
  "decimal_sub x y = context_round (x - y)"

definition decimal_mul :: "decimal \<Rightarrow> decimal \<Rightarrow> decimal" where
  "decimal_mul x y = context_round (x * y)"

definition decimal_truediv :: "decimal \<Rightarrow> decimal \<Rightarrow> decimal" where
  "decimal_truediv x y = context_round (x / y)"

text \<open>
  \<open>_safe_div\<close> of the finance service: zero when the denominator is zero, the quantized
  quotient otherwise.
\<close>

definition safe_div :: "decimal \<Rightarrow> decimal \<Rightarrow> decimal" where
  "safe_div numerator denominator =
     (if denominator = ZERO then ZERO else q2 (decimal_truediv numerator denominator))"

text \<open>
  A UUID is represented by its canonical string \<open>str(id)\<close>; the resolver's sort key and
  the sorted identifier lists of error messages compare exactly these strings, character by
  character.
\<close>

type_synonym uuid = string

text \<open>
  A \<open>datetime.date\<close>. Comparison is by (year, month, day). The constructor
  \<open>date(y, m, d)\<close> raises \<open>ValueError\<close> outside \<open>1 \<le> y \<le> 9999\<close>, \<open>1 \<le> m \<le> 12\<close>,
  \<open>1 \<le> d \<le>\<close> days of the month.
\<close>

datatype date = Date (year: nat) (month: nat) (day: nat)

instantiation date :: linorder
begin

definition less_eq_date :: "date \<Rightarrow> date \<Rightarrow> bool" where
  "less_eq_date a b \<longleftrightarrow> (year a, month a, day a) \<le> (year b, month b, day b)"

definition less_date :: "date \<Rightarrow> date \<Rightarrow> bool" where
  "less_date a b \<longleftrightarrow> (year a, month a, day a) < (year b, month b, day b)"

instance
proof
  fix x y z :: date
  show "(x < y) = (x \<le> y \<and> \<not> y \<le> x)"
    unfolding less_eq_date_def less_date_def by (rule less_le_not_le)
  show "x \<le> x"
    unfolding less_eq_date_def by simp
  show "x \<le> y \<Longrightarrow> y \<le> z \<Longrightarrow> x \<le> z"
    unfolding less_eq_date_def by (rule order_trans)
  show "x \<le> y \<Longrightarrow> y \<le> x \<Longrightarrow> x = y"
    unfolding less_eq_date_def by (auto simp: date.expand dest: order_antisym)
  show "x \<le> y \<or> y \<le> x"
    unfolding less_eq_date_def by (rule linear)
qed

end

datatype error = HTTPException (status_code: nat) (detail: string) | ValueError | IntegrityError

definition is_leap :: "nat \<Rightarrow> bool" where
  "is_leap y \<longleftrightarrow> y mod 4 = 0 \<and> (y mod 100 \<noteq> 0 \<or> y mod 400 = 0)"

definition days_in_month :: "nat \<Rightarrow> nat \<Rightarrow> nat" where
  "days_in_month y m =
     (if m = 2 then (if is_leap y then 29 else 28)
      else if m = 4 \<or> m = 6 \<or> m = 9 \<or> m = 11 then 30 else 31)"

definition MAXYEAR :: nat where
  "MAXYEAR = 9999"

definition valid_date :: "date \<Rightarrow> bool" where
  "valid_date d \<longleftrightarrow>
     1 \<le> year d \<and> year d \<le> MAXYEAR \<and> 1 \<le> month d \<and> month d \<le> 12 \<and>
     1 \<le> day d \<and> day d \<le> days_in_month (year d) (month d)"

definition py_date :: "nat \<Rightarrow> nat \<Rightarrow> nat \<Rightarrow> error + date" where
  "py_date y m d = (if valid_date (Date y m d) then Inr (Date y m d) else Inl ValueError)"

definition date_max :: date where
  "date_max = Date 9999 12 31"

definition HTTP_404_NOT_FOUND :: nat where
  "HTTP_404_NOT_FOUND = 404"

definition HTTP_409_CONFLICT :: nat where
  "HTTP_409_CONFLICT = 409"

definition HTTP_422_UNPROCESSABLE_ENTITY :: nat where
  "HTTP_422_UNPROCESSABLE_ENTITY = 422"

section \<open>Month helpers of the planning service\<close>

definition normalize_month_start :: "date \<Rightarrow> error + date" where
  "normalize_month_start v =
     (if day v \<noteq> 1
      then Inl (HTTPException HTTP_422_UNPROCESSABLE_ENTITY
             ''month_start must be first day of calendar month.'')
      else py_date (year v) (month v) 1)"

text \<open>
  The \<open>while current <= end\<close> loop of \<open>month_sequence\<close>, with the list built so far as
  accumulator. The successor month is built with the \<open>date\<close> constructor, which can raise.
\<close>

function month_sequence_loop :: "date \<Rightarrow> date \<Rightarrow> date list \<Rightarrow> error + date list" where
  "month_sequence_loop current end_d months =
     (if current \<le> end_d
      then (case (if month current = 12 then py_date (year current + 1) 1 1
                  else py_date (year current) (month current + 1) 1) of
              Inl e \<Rightarrow> Inl e
            | Inr nxt \<Rightarrow> month_sequence_loop nxt end_d (months @ [current]))
      else Inr months)"
  by pat_completeness auto

definition month_index :: "date \<Rightarrow> nat" where
  "month_index d = year d * 12 + month d"

lemma month_sequence_loop_step:
  assumes "current \<le> end_d"
    and "(if month current = 12 then py_date (year current + 1) 1 1
          else py_date (year current) (month current + 1) 1) = Inr nxt"
  shows "month_index end_d + 1 - month_index nxt < month_index end_d + 1 - month_index current"
proof -
  have le: "month_index current \<le> month_index end_d"
    using assms
    by (auto simp: month_index_def less_eq_date_def py_date_def valid_date_def
        split: if_splits)
  have nx: "month_index nxt = month_index current + 1"
    using assms(2)
    by (auto simp: month_index_def py_date_def valid_date_def split: if_splits)
  show ?thesis using le nx by simp
qed

termination month_sequence_loop
  by (relation "measure (\<lambda>(current, end_d, months). month_index end_d + 1 - month_index current)")
    (auto dest: month_sequence_loop_step)

declare month_sequence_loop.simps [simp del]

definition month_sequence :: "date \<Rightarrow> date \<Rightarrow> error + date list" where
  "month_sequence start_month end_month =
     (case py_date (year start_month) (month start_month) 1 of
        Inl e \<Rightarrow> Inl e
      | Inr current \<Rightarrow>
          (case py_date (year end_month) (month end_month) 1 of
             Inl e \<Rightarrow> Inl e
           | Inr end_d \<Rightarrow> month_sequence_loop current end_d []))"

section \<open>Entities and configuration\<close>

text \<open>
  The persistent entities, with the columns the snapshot and rollup engine reads. The
  surrogate key of a snapshot row (a random UUID the code never reads) is left out; a
  snapshot is addressed by project and month, as \<open>get_snapshot\<close> does.
\<close>

datatype rate_unit = DAY | FTE_MONTH

record settings =
  cost_fte_month_working_days :: int

record project =
  project_id :: uuid
  project_business_unit_id :: uuid
  project_code :: string
  start_month :: date
  end_month :: date

record stage =
  stage_id :: uuid
  stage_project_id :: uuid
  stage_start_month :: date
  stage_end_month :: date

record task =
  task_id :: uuid
  task_project_id :: uuid
  task_active :: bool

record performer =
  performer_id :: uuid
  performer_business_unit_id :: uuid
  performer_active :: bool

record assignment =
  assignment_task_id :: uuid
  assignment_performer_id :: uuid

record effort_entry =
  effort_project_id :: uuid
  effort_task_id :: uuid
  effort_performer_id :: uuid
  effort_month_start :: date
  planned_person_days :: decimal
  actual_person_days :: decimal

record performer_rate =
  rate_id :: uuid
  rate_business_unit_id :: uuid
  rate_performer_id :: uuid
  rate_project_id :: "uuid option"
  rate_unit :: rate_unit
  rate_value :: decimal
  effective_from_month :: date
  effective_to_month :: "date option"

record invoice =
  invoice_project_id :: uuid
  invoice_month_start :: date
  invoice_amount_of :: decimal

record revenue =
  revenue_project_id :: uuid
  revenue_month_start :: date
  revenue_amount_of :: decimal

record financial_request =
  request_project_id :: uuid
  request_month_start :: date
  request_amount_of :: decimal

record snapshot =
  snapshot_project_id :: uuid
  snapshot_month_start :: date
  snap_planned_person_days :: decimal
  snap_actual_person_days :: decimal
  snap_planned_cost :: decimal
  snap_actual_cost :: decimal
  snap_revenue_amount :: decimal
  snap_invoice_amount :: decimal
  snap_cumulative_planned_cost :: decimal
  snap_cumulative_actual_cost :: decimal
  snap_cumulative_revenue :: decimal

record db =
  business_units :: "uuid list"
  projects :: "project list"
  stages :: "stage list"
  tasks :: "task list"
  performers :: "performer list"
  assignments :: "assignment list"
  effort_entries :: "effort_entry list"
  rates :: "performer_rate list"
  invoices :: "invoice list"
  revenues :: "revenue list"
  financial_requests :: "financial_request list"
  snapshots :: "snapshot list"

section \<open>Column storage\<close>

text \<open>
  Person days, rate values and amounts are \<open>Numeric(p, 2)\<close> columns. An object of a session
  keeps the \<open>Decimal\<close> the service assigned to it; the row in the database holds that value
  rounded to two decimals, ties away from zero, as PostgreSQL rounds a numeric to the scale
  of its column. \<open>stored d\<close> is the database as its rows hold it: what a query computes
  inside the database, and what a later session loads.
\<close>

definition numeric_column :: "decimal \<Rightarrow> decimal" where
  "numeric_column v = sgn v * of_int \<lfloor>\<bar>v\<bar> * 100 + 1 / 2\<rfloor> / 100"

definition stored :: "db \<Rightarrow> db" where
  "stored d =
     d \<lparr> effort_entries :=
           map (\<lambda>e. e \<lparr> planned_person_days := numeric_column (planned_person_days e),
                        actual_person_days := numeric_column (actual_person_days e) \<rparr>)
             (effort_entries d),
         rates := map (\<lambda>r. r \<lparr> rate_value := numeric_column (rate_value r) \<rparr>) (rates d),
         invoices :=
           map (\<lambda>i. i \<lparr> invoice_amount_of := numeric_column (invoice_amount_of i) \<rparr>) (invoices d),
         revenues :=
           map (\<lambda>r. r \<lparr> revenue_amount_of := numeric_column (revenue_amount_of r) \<rparr>) (revenues d),
         financial_requests :=
           map (\<lambda>r. r \<lparr> request_amount_of := numeric_column (request_amount_of r) \<rparr>)
             (financial_requests d),
         snapshots :=
           map (\<lambda>s. s \<lparr> snap_planned_person_days := numeric_column (snap_planned_person_days s),
                        snap_actual_person_days := numeric_column (snap_actual_person_days s),
                        snap_planned_cost := numeric_column (snap_planned_cost s),
                        snap_actual_cost := numeric_column (snap_actual_cost s),
                        snap_revenue_amount := numeric_column (snap_revenue_amount s),
                        snap_invoice_amount := numeric_column (snap_invoice_amount s),
                        snap_cumulative_planned_cost :=
                          numeric_column (snap_cumulative_planned_cost s),
                        snap_cumulative_actual_cost :=
                          numeric_column (snap_cumulative_actual_cost s),
                        snap_cumulative_revenue := numeric_column (snap_cumulative_revenue s) \<rparr>)
             (snapshots d) \<rparr>"

section \<open>Repository reads\<close>

text \<open>
  The listings return objects of the session, with the values the session holds for them.
\<close>

definition get_project :: "db \<Rightarrow> uuid \<Rightarrow> project option" where
  "get_project d pid = find (\<lambda>p. project_id p = pid) (projects d)"

definition list_tasks :: "db \<Rightarrow> uuid \<Rightarrow> task list" where
  "list_tasks d pid = filter (\<lambda>t. task_project_id t = pid) (tasks d)"

definition list_performers_for_business_unit :: "db \<Rightarrow> uuid \<Rightarrow> performer list" where
  "list_performers_for_business_unit d bu =
     filter (\<lambda>p. performer_business_unit_id p = bu) (performers d)"

definition list_assignments_for_project :: "db \<Rightarrow> uuid \<Rightarrow> assignment list" where
  "list_assignments_for_project d pid =
     filter (\<lambda>a. \<exists>t \<in> set (tasks d). task_id t = assignment_task_id a \<and> task_project_id t = pid)
       (assignments d)"

definition list_performers_for_project :: "db \<Rightarrow> uuid \<Rightarrow> uuid \<Rightarrow> performer list" where
  "list_performers_for_project d pid bu =
     (let performer_ids = map assignment_performer_id (list_assignments_for_project d pid)
      in if performer_ids = [] then []
         else filter (\<lambda>p. performer_id p \<in> set performer_ids \<and> performer_business_unit_id p = bu)
                (performers d))"

text \<open>
  A filter argument of \<open>list_effort_entries_filtered\<close> applies only when it is a non-empty
  set (\<open>if task_ids:\<close>).
\<close>

definition in_filter :: "uuid set option \<Rightarrow> uuid \<Rightarrow> bool" where
  "in_filter ids x = (case ids of None \<Rightarrow> True | Some S \<Rightarrow> S = {} \<or> x \<in> S)"

definition effort_order :: "effort_entry \<Rightarrow> date \<times> uuid \<times> uuid" where
  "effort_order e = (effort_month_start e, effort_task_id e, effort_performer_id e)"

definition list_effort_entries_filtered ::
  "db \<Rightarrow> uuid \<Rightarrow> date \<Rightarrow> date \<Rightarrow> uuid set option \<Rightarrow> uuid set option \<Rightarrow> effort_entry list" where
  "list_effort_entries_filtered d pid from_month to_month task_ids performer_ids =
     sort_key effort_order
       (filter (\<lambda>e. effort_project_id e = pid \<and> from_month \<le> effort_month_start e \<and>
                    effort_month_start e \<le> to_month \<and>
                    in_filter task_ids (effort_task_id e) \<and>
                    in_filter performer_ids (effort_performer_id e))
          (effort_entries d))"

definition list_effort_entries :: "db \<Rightarrow> uuid \<Rightarrow> date \<Rightarrow> date \<Rightarrow> effort_entry list" where
  "list_effort_entries d pid from_month to_month =
     sort_key effort_order
       (filter (\<lambda>e. effort_project_id e = pid \<and> from_month \<le> effort_month_start e \<and>
                    effort_month_start e \<le> to_month)
          (effort_entries d))"

text \<open>
  \<open>list_rates_for_business_unit\<close> as the services call it, with a project id: the rates of
  the business unit that are specific to the project or defaults. The rows come ordered by
  performer, project (NULL last, as in PostgreSQL) and first effective month.
\<close>

definition rate_order :: "performer_rate \<Rightarrow> uuid \<times> (nat \<times> uuid) \<times> date" where
  "rate_order r =
     (rate_performer_id r,
      (case rate_project_id r of None \<Rightarrow> (1, []) | Some p \<Rightarrow> (0, p)),
      effective_from_month r)"

definition list_rates_for_business_unit :: "db \<Rightarrow> uuid \<Rightarrow> uuid \<Rightarrow> performer_rate list" where
  "list_rates_for_business_unit d bu pid =
     sort_key rate_order
       (filter (\<lambda>r. rate_business_unit_id r = bu \<and>
                    (rate_project_id r = Some pid \<or> rate_project_id r = None))
          (rates d))"

text \<open>
  The monthly aggregates are \<open>GROUP BY month_start\<close> queries: a month has a key exactly
  when a row exists for it, and its value is the sum, computed inside the database, of the
  amounts the rows hold.
\<close>

definition aggregate_invoices_by_month :: "db \<Rightarrow> uuid \<Rightarrow> (date \<rightharpoonup> decimal)" where
  "aggregate_invoices_by_month d pid =
     (\<lambda>m. let xs = filter (\<lambda>i. invoice_project_id i = pid \<and> invoice_month_start i = m) (invoices d)
          in if xs = [] then None
             else Some (sum_list (map (\<lambda>i. numeric_column (invoice_amount_of i)) xs)))"

definition aggregate_revenues_by_month :: "db \<Rightarrow> uuid \<Rightarrow> (date \<rightharpoonup> decimal)" where
  "aggregate_revenues_by_month d pid =
     (\<lambda>m. let xs = filter (\<lambda>i. revenue_project_id i = pid \<and> revenue_month_start i = m) (revenues d)
          in if xs = [] then None
             else Some (sum_list (map (\<lambda>r. numeric_column (revenue_amount_of r)) xs)))"

definition get_snapshot :: "db \<Rightarrow> uuid \<Rightarrow> date \<Rightarrow> snapshot option" where
  "get_snapshot d pid m =
     find (\<lambda>s. snapshot_project_id s = pid \<and> snapshot_month_start s = m) (snapshots d)"

definition list_snapshots :: "db \<Rightarrow> uuid \<Rightarrow> date \<Rightarrow> date \<Rightarrow> snapshot list" where
  "list_snapshots d pid from_month to_month =
     sort_key snapshot_month_start
       (filter (\<lambda>s. snapshot_project_id s = pid \<and> from_month \<le> snapshot_month_start s \<and>
                    snapshot_month_start s \<le> to_month)
          (snapshots d))"

section \<open>Rate resolver and cost calculator\<close>

text \<open>
  \<open>_covers_month\<close>, \<open>_resolve_effective_rate\<close> and \<open>_rate_value_per_day\<close> exist twice, in
  the planning service and in the finance service, with the same bodies; one definition
  stands for both.
\<close>

definition covers_month :: "performer_rate \<Rightarrow> date \<Rightarrow> bool" where
  "covers_month rate month_start =
     (if month_start < effective_from_month rate then False
      else if effective_to_month rate \<noteq> None \<and> the (effective_to_month rate) < month_start
      then False
      else True)"

definition rate_sort_key :: "performer_rate \<Rightarrow> date \<times> date \<times> string" where
  "rate_sort_key row =
     (effective_from_month row,
      (case effective_to_month row of None \<Rightarrow> date_max | Some d \<Rightarrow> d),
      rate_id row)"

text \<open>
  \<open>list.sort(key=..., reverse=True)\<close>: descending by key, equal keys keep their order.
\<close>

definition sort_reverse :: "('a \<Rightarrow> 'k::linorder) \<Rightarrow> 'a list \<Rightarrow> 'a list" where
  "sort_reverse key xs = rev (sort_key key (rev xs))"

text \<open>
  The dictionary built by \<open>rates_by_performer.setdefault(rate.performer_id, []).append(rate)\<close>.
\<close>

definition group_rates_by_performer :: "performer_rate list \<Rightarrow> (uuid \<rightharpoonup> performer_rate list)" where
  "group_rates_by_performer rs =
     foldl (\<lambda>m r. m(rate_performer_id r \<mapsto>
                     (case m (rate_performer_id r) of None \<Rightarrow> [] | Some xs \<Rightarrow> xs) @ [r]))
       Map.empty rs"

definition project_rates_by_performer :: "db \<Rightarrow> project \<Rightarrow> (uuid \<rightharpoonup> performer_rate list)" where
  "project_rates_by_performer d p =
     group_rates_by_performer
       (list_rates_for_business_unit d (project_business_unit_id p) (project_id p))"

definition resolve_effective_rate ::
  "(uuid \<rightharpoonup> performer_rate list) \<Rightarrow> uuid \<Rightarrow> uuid \<Rightarrow> date \<Rightarrow> performer_rate option" where
  "resolve_effective_rate rates_by_performer perf pid month_start =
     (let candidates = (case rates_by_performer perf of None \<Rightarrow> [] | Some xs \<Rightarrow> xs);
          project_specific =
            filter (\<lambda>row. rate_project_id row = Some pid \<and> covers_month row month_start) candidates
      in if project_specific \<noteq> []
         then Some (hd (sort_reverse rate_sort_key project_specific))
         else
           (let defaults =
              filter (\<lambda>row. rate_project_id row = None \<and> covers_month row month_start) candidates
            in if defaults = [] then None
               else Some (hd (sort_reverse rate_sort_key defaults))))"

text \<open>
  \<open>_rate_value_per_day\<close>: the quotient of a monthly rate by the working-day count is a
  \<open>Decimal\<close> division, rounded to the context precision before it is quantized. The
  configured working-day count is at least 1 (\<open>Field(default=20, ge=1)\<close>).
\<close>

definition rate_value_per_day :: "settings \<Rightarrow> performer_rate \<Rightarrow> decimal" where
  "rate_value_per_day st rate =
     (if rate_unit rate = DAY then q2 (rate_value rate)
      else q2 (decimal_truediv (rate_value rate) (of_int (cost_fte_month_working_days st))))"

section \<open>Monthly rollup builder of the finance service\<close>

record cost_row =
  cr_task_id :: uuid
  cr_performer_id :: uuid
  cr_month_start :: date
  cr_planned_person_days :: decimal
  cr_actual_person_days :: decimal
  cr_planned_cost :: decimal
  cr_actual_cost :: decimal
  cr_rate_value_per_day :: decimal
  cr_rate_unit :: "rate_unit option"

definition cost_entry_row ::
  "settings \<Rightarrow> (uuid \<rightharpoonup> performer_rate list) \<Rightarrow> project \<Rightarrow> effort_entry \<Rightarrow> cost_row" where
  "cost_entry_row st rates_by_performer p entry =
     (let rate = resolve_effective_rate rates_by_performer (effort_performer_id entry)
                   (project_id p) (effort_month_start entry);
          per_day = (case rate of None \<Rightarrow> ZERO | Some r \<Rightarrow> rate_value_per_day st r);
          unit = (case rate of None \<Rightarrow> None | Some r \<Rightarrow> Some (rate_unit r))
      in \<lparr> cr_task_id = effort_task_id entry,
           cr_performer_id = effort_performer_id entry,
           cr_month_start = effort_month_start entry,
           cr_planned_person_days = planned_person_days entry,
           cr_actual_person_days = actual_person_days entry,
           cr_planned_cost = q2 (decimal_mul (planned_person_days entry) per_day),
           cr_actual_cost = q2 (decimal_mul (actual_person_days entry) per_day),
           cr_rate_value_per_day = per_day,
           cr_rate_unit = unit \<rparr>)"

definition project_cost_entry_rows ::
  "settings \<Rightarrow> db \<Rightarrow> project \<Rightarrow> date \<Rightarrow> date \<Rightarrow> uuid set option \<Rightarrow> uuid set option
     \<Rightarrow> cost_row list" where
  "project_cost_entry_rows st d p from_month to_month performer_filter_set task_filter_set =
     (let effort = list_effort_entries_filtered d (project_id p) from_month to_month
                     task_filter_set performer_filter_set;
          rates_by_performer = project_rates_by_performer d p
      in map (cost_entry_row st rates_by_performer p) effort)"

record bucket =
  b_planned_person_days :: decimal
  b_actual_person_days :: decimal
  b_planned_cost :: decimal
  b_actual_cost :: decimal

definition zero_bucket :: bucket where
  "zero_bucket = \<lparr> b_planned_person_days = ZERO, b_actual_person_days = ZERO,
                   b_planned_cost = ZERO, b_actual_cost = ZERO \<rparr>"

text \<open>The dictionary comprehension \<open>{month: {...zeros...} for month in months}\<close>.\<close>

definition init_buckets :: "date list \<Rightarrow> (date \<rightharpoonup> bucket)" where
  "init_buckets months = foldl (\<lambda>m mth. m(mth \<mapsto> zero_bucket)) Map.empty months"

text \<open>One turn of \<open>for row in cost_rows\<close>: \<open>setdefault\<close>, then the four additions.\<close>

definition add_cost_row :: "(date \<rightharpoonup> bucket) \<Rightarrow> cost_row \<Rightarrow> (date \<rightharpoonup> bucket)" where
  "add_cost_row by_month row =
     (let b = (case by_month (cr_month_start row) of None \<Rightarrow> zero_bucket | Some b \<Rightarrow> b)
      in by_month(cr_month_start row \<mapsto>
           \<lparr> b_planned_person_days =
               decimal_add (b_planned_person_days b) (cr_planned_person_days row),
             b_actual_person_days =
               decimal_add (b_actual_person_days b) (cr_actual_person_days row),
             b_planned_cost = decimal_add (b_planned_cost b) (cr_planned_cost row),
             b_actual_cost = decimal_add (b_actual_cost b) (cr_actual_cost row) \<rparr>))"

record rollup_row =
  row_month_start :: date
  row_planned_person_days :: decimal
  row_actual_person_days :: decimal
  row_planned_cost :: decimal
  row_actual_cost :: decimal
  row_invoice_amount :: decimal
  row_revenue_amount :: decimal
  row_cumulative_planned_cost :: decimal
  row_cumulative_actual_cost :: decimal
  row_cumulative_revenue :: decimal

text \<open>
  The closing \<open>for month in months\<close> loop of \<open>_project_monthly_rollups\<close>; the three running
  totals and the output list are the accumulators. \<open>month_row\<close> is the loop body: the row
  computed for one month.
\<close>

definition month_row ::
  "(date \<rightharpoonup> bucket) \<Rightarrow> (date \<rightharpoonup> decimal) \<Rightarrow> (date \<rightharpoonup> decimal) \<Rightarrow> date
     \<Rightarrow> decimal \<Rightarrow> decimal \<Rightarrow> decimal \<Rightarrow> rollup_row" where
  "month_row by_month invs revs mth cum_planned cum_actual cum_revenue =
     (let b = (case by_month mth of None \<Rightarrow> zero_bucket | Some b \<Rightarrow> b);
          planned_pd = q2 (b_planned_person_days b);
          actual_pd = q2 (b_actual_person_days b);
          planned_cost = q2 (b_planned_cost b);
          actual_cost = q2 (b_actual_cost b);
          invoice_amount = q2 (case invs mth of None \<Rightarrow> ZERO | Some a \<Rightarrow> a);
          revenue_amount = q2 (case revs mth of None \<Rightarrow> ZERO | Some a \<Rightarrow> a)
      in \<lparr> row_month_start = mth,
           row_planned_person_days = planned_pd,
           row_actual_person_days = actual_pd,
           row_planned_cost = planned_cost,
           row_actual_cost = actual_cost,
           row_invoice_amount = invoice_amount,
           row_revenue_amount = revenue_amount,
           row_cumulative_planned_cost = q2 (cum_planned + planned_cost),
           row_cumulative_actual_cost = q2 (cum_actual + actual_cost),
           row_cumulative_revenue = q2 (cum_revenue + revenue_amount) \<rparr>)"

fun rollup_loop ::
  "(date \<rightharpoonup> bucket) \<Rightarrow> (date \<rightharpoonup> decimal) \<Rightarrow> (date \<rightharpoonup> decimal) \<Rightarrow> date list
     \<Rightarrow> decimal \<Rightarrow> decimal \<Rightarrow> decimal \<Rightarrow> rollup_row list \<Rightarrow> rollup_row list" where
  "rollup_loop by_month invs revs [] cum_planned cum_actual cum_revenue output = output"
| "rollup_loop by_month invs revs (mth # months) cum_planned cum_actual cum_revenue output =
     (let r = month_row by_month invs revs mth cum_planned cum_actual cum_revenue
      in rollup_loop by_month invs revs months
           (row_cumulative_planned_cost r) (row_cumulative_actual_cost r)
           (row_cumulative_revenue r) (output @ [r]))"

definition project_monthly_rollups ::
  "settings \<Rightarrow> db \<Rightarrow> project \<Rightarrow> date \<Rightarrow> date \<Rightarrow> error + rollup_row list" where
  "project_monthly_rollups st d p from_month to_month =
     (case month_sequence from_month to_month of
        Inl e \<Rightarrow> Inl e
      | Inr months \<Rightarrow>
          (let cost_rows = project_cost_entry_rows st d p from_month to_month None None;
               effort_and_cost_by_month = foldl add_cost_row (init_buckets months) cost_rows;
               invs = aggregate_invoices_by_month d (project_id p);
               revs = aggregate_revenues_by_month d (project_id p)
           in Inr (rollup_loop effort_and_cost_by_month invs revs months ZERO ZERO ZERO [])))"

section \<open>Specification vocabulary for the rate resolver\<close>

text \<open>
  The resolver's contract in the words of the specification: a rate covers a month when the
  month lies in its effective range; among covering rates of one scope the latest first
  month wins, then the latest last month with a missing last month counting as infinite,
  then the record identifier. \<open>month_start_ends\<close> is the invariant the rate upsert
  establishes with \<open>normalize_month_start\<close>: every last month is a valid first-of-month date.
\<close>

definition range_covers :: "performer_rate \<Rightarrow> date \<Rightarrow> bool" where
  "range_covers r m \<longleftrightarrow>
     effective_from_month r \<le> m \<and> (case effective_to_month r of None \<Rightarrow> True | Some t \<Rightarrow> m \<le> t)"

definition covering_rates ::
  "performer_rate list \<Rightarrow> uuid \<Rightarrow> uuid option \<Rightarrow> date \<Rightarrow> performer_rate list" where
  "covering_rates rs perf scope m =
     filter (\<lambda>r. rate_performer_id r = perf \<and> rate_project_id r = scope \<and> range_covers r m) rs"

definition end_earlier :: "date option \<Rightarrow> date option \<Rightarrow> bool" where
  "end_earlier a b = (case a of None \<Rightarrow> False | Some x \<Rightarrow> (case b of None \<Rightarrow> True | Some y \<Rightarrow> x < y))"

definition ranks_at_most :: "performer_rate \<Rightarrow> performer_rate \<Rightarrow> bool" where
  "ranks_at_most r' r \<longleftrightarrow>
     effective_from_month r' < effective_from_month r \<or>
     (effective_from_month r' = effective_from_month r \<and>
      (end_earlier (effective_to_month r') (effective_to_month r) \<or>
       (effective_to_month r' = effective_to_month r \<and> rate_id r' \<le> rate_id r)))"

definition month_start_ends :: "performer_rate list \<Rightarrow> bool" where
  "month_start_ends rs = list_all (\<lambda>r. case effective_to_month r of None \<Rightarrow> True
       | Some d \<Rightarrow> valid_date d \<and> day d = 1) rs"

section \<open>Snapshot synchronizer of the planning service\<close>

text \<open>
  One turn of \<open>for entry in effort_entries\<close> in \<open>refresh_project_snapshots\<close>: the person
  days are always added; the costs only when a rate resolves (\<open>continue\<close> otherwise).
\<close>

definition accumulate_entry ::
  "settings \<Rightarrow> (uuid \<rightharpoonup> performer_rate list) \<Rightarrow> project \<Rightarrow> (date \<rightharpoonup> bucket) \<Rightarrow> effort_entry
     \<Rightarrow> (date \<rightharpoonup> bucket)" where
  "accumulate_entry st rates_by_performer p totals entry =
     (let b = (case totals (effort_month_start entry) of None \<Rightarrow> zero_bucket | Some b \<Rightarrow> b);
          b1 = b \<lparr> b_planned_person_days :=
                     decimal_add (b_planned_person_days b) (planned_person_days entry),
                   b_actual_person_days :=
                     decimal_add (b_actual_person_days b) (actual_person_days entry) \<rparr>
      in case resolve_effective_rate rates_by_performer (effort_performer_id entry)
                (project_id p) (effort_month_start entry) of
           None \<Rightarrow> totals(effort_month_start entry \<mapsto> b1)
         | Some rate \<Rightarrow>
             (let rate_per_day = rate_value_per_day st rate
              in totals(effort_month_start entry \<mapsto>
                   b1 \<lparr> b_planned_cost :=
                          decimal_add (b_planned_cost b1)
                            (q2 (decimal_mul (planned_person_days entry) rate_per_day)),
                        b_actual_cost :=
                          decimal_add (b_actual_cost b1)
                            (q2 (decimal_mul (actual_person_days entry) rate_per_day)) \<rparr>)))"

text \<open>
  A row found by a query is an object of the session; assigning its attributes changes the
  first row the query matches and no other.
\<close>

fun update_first :: "('a \<Rightarrow> bool) \<Rightarrow> ('a \<Rightarrow> 'a) \<Rightarrow> 'a list \<Rightarrow> 'a list" where
  "update_first P f [] = []"
| "update_first P f (x # xs) = (if P x then f x # xs else x # update_first P f xs)"

definition add_snapshot :: "db \<Rightarrow> snapshot \<Rightarrow> db" where
  "add_snapshot d s = d \<lparr> snapshots := snapshots d @ [s] \<rparr>"

definition delete_snapshots_outside_range :: "db \<Rightarrow> uuid \<Rightarrow> date \<Rightarrow> date \<Rightarrow> db" where
  "delete_snapshots_outside_range d pid start_m end_m =
     d \<lparr> snapshots :=
           filter (\<lambda>s. \<not> (snapshot_project_id s = pid \<and>
                           (snapshot_month_start s < start_m \<or> end_m < snapshot_month_start s)))
             (snapshots d) \<rparr>"

text \<open>
  The body of the \<open>for month in months\<close> loop of \<open>refresh_project_snapshots\<close>, in two
  parts: the values computed for the month from the bucket, the aggregates and the running
  totals; and their storage, which creates an absent snapshot and overwrites the nine
  derived fields of a present one.
\<close>

definition month_snapshot ::
  "uuid \<Rightarrow> (date \<rightharpoonup> bucket) \<Rightarrow> (date \<rightharpoonup> decimal) \<Rightarrow> (date \<rightharpoonup> decimal) \<Rightarrow> date
     \<Rightarrow> decimal \<Rightarrow> decimal \<Rightarrow> decimal \<Rightarrow> snapshot" where
  "month_snapshot pid totals revs invs mth cum_planned cum_actual cum_revenue =
     (let b = (case totals mth of None \<Rightarrow> zero_bucket | Some b \<Rightarrow> b);
          planned_total = q2 (b_planned_person_days b);
          actual_total = q2 (b_actual_person_days b);
          planned_cost = q2 (b_planned_cost b);
          actual_cost = q2 (b_actual_cost b);
          revenue_amount = q2 (case revs mth of None \<Rightarrow> ZERO | Some a \<Rightarrow> a);
          invoice_amount = q2 (case invs mth of None \<Rightarrow> ZERO | Some a \<Rightarrow> a)
      in \<lparr> snapshot_project_id = pid, snapshot_month_start = mth,
           snap_planned_person_days = planned_total,
           snap_actual_person_days = actual_total,
           snap_planned_cost = planned_cost,
           snap_actual_cost = actual_cost,
           snap_revenue_amount = revenue_amount,
           snap_invoice_amount = invoice_amount,
           snap_cumulative_planned_cost = q2 (cum_planned + planned_cost),
           snap_cumulative_actual_cost = q2 (cum_actual + actual_cost),
           snap_cumulative_revenue = q2 (cum_revenue + revenue_amount) \<rparr>)"

definition overwrite_snapshot :: "snapshot \<Rightarrow> snapshot \<Rightarrow> snapshot" where
  "overwrite_snapshot v s =
     s \<lparr> snap_planned_person_days := snap_planned_person_days v,
         snap_actual_person_days := snap_actual_person_days v,
         snap_planned_cost := snap_planned_cost v,
         snap_actual_cost := snap_actual_cost v,
         snap_revenue_amount := snap_revenue_amount v,
         snap_invoice_amount := snap_invoice_amount v,
         snap_cumulative_planned_cost := snap_cumulative_planned_cost v,
         snap_cumulative_actual_cost := snap_cumulative_actual_cost v,
         snap_cumulative_revenue := snap_cumulative_revenue v \<rparr>"

definition upsert_snapshot :: "db \<Rightarrow> snapshot \<Rightarrow> snapshot \<times> db" where
  "upsert_snapshot d v =
     (case get_snapshot d (snapshot_project_id v) (snapshot_month_start v) of
        None \<Rightarrow> (v, add_snapshot d v)
      | Some existing \<Rightarrow>
          (overwrite_snapshot v existing,
           d \<lparr> snapshots :=
                 update_first (\<lambda>s. snapshot_project_id s = snapshot_project_id v \<and>
                                    snapshot_month_start s = snapshot_month_start v)
                   (overwrite_snapshot v) (snapshots d) \<rparr>))"

fun refresh_loop ::
  "uuid \<Rightarrow> (date \<rightharpoonup> bucket) \<Rightarrow> (date \<rightharpoonup> decimal) \<Rightarrow> (date \<rightharpoonup> decimal) \<Rightarrow> date list
     \<Rightarrow> decimal \<Rightarrow> decimal \<Rightarrow> decimal \<Rightarrow> snapshot list \<Rightarrow> db \<Rightarrow> snapshot list \<times> db" where
  "refresh_loop pid totals revs invs [] cum_planned cum_actual cum_revenue refreshed d =
     (refreshed, d)"
| "refresh_loop pid totals revs invs (mth # months) cum_planned cum_actual cum_revenue refreshed d =
     (let v = month_snapshot pid totals revs invs mth cum_planned cum_actual cum_revenue;
          (s, d') = upsert_snapshot d v
      in refresh_loop pid totals revs invs months
           (snap_cumulative_planned_cost v) (snap_cumulative_actual_cost v)
           (snap_cumulative_revenue v) (refreshed @ [s]) d')"

definition refresh_project_snapshots :: "settings \<Rightarrow> db \<Rightarrow> uuid \<Rightarrow> error + snapshot list \<times> db" where
  "refresh_project_snapshots st d pid =
     (case get_project d pid of
        None \<Rightarrow> Inl (HTTPException HTTP_404_NOT_FOUND ''Project not found.'')
      | Some p \<Rightarrow>
          (case month_sequence (start_month p) (end_month p) of
             Inl e \<Rightarrow> Inl e
           | Inr months \<Rightarrow>
               (let effort = list_effort_entries d (project_id p) (start_month p) (end_month p);
                    invoice_by_month = aggregate_invoices_by_month d (project_id p);
                    revenue_by_month = aggregate_revenues_by_month d (project_id p);
                    rates_by_performer = project_rates_by_performer d p;
                    totals = foldl (accumulate_entry st rates_by_performer p) (init_buckets months) effort;
                    (refreshed, d') = refresh_loop (project_id p) totals revenue_by_month
                                        invoice_by_month months ZERO ZERO ZERO [] d
                in Inr (refreshed,
                        delete_snapshots_outside_range d' (project_id p) (start_month p) (end_month p)))))"

section \<open>Specification vocabulary for months and running totals\<close>

text \<open>
  A month start is a valid date on the first day of its month. Calendar months are numbered
  consecutively by \<open>month_index\<close>; \<open>nth_month\<close> is the month start with a given number, so
  the calendar months of an inclusive range are \<open>nth_month\<close> of the numbers between those of
  its bounds. \<open>chained cum val prev rows\<close> says that along \<open>rows\<close> every cumulative field is
  the previous cumulative value plus the row's own monthly value, rounded after the addition.
\<close>

definition month_start :: "date \<Rightarrow> bool" where
  "month_start d \<longleftrightarrow> valid_date d \<and> day d = 1"

definition nth_month :: "nat \<Rightarrow> date" where
  "nth_month k = Date ((k - 1) div 12) ((k - 1) mod 12 + 1) 1"

definition calendar_months :: "date \<Rightarrow> date \<Rightarrow> date list" where
  "calendar_months from_month to_month =
     map nth_month [month_index from_month ..< month_index to_month + 1]"

fun chained :: "('a \<Rightarrow> decimal) \<Rightarrow> ('a \<Rightarrow> decimal) \<Rightarrow> decimal \<Rightarrow> 'a list \<Rightarrow> bool" where
  "chained cum val prev [] = True"
| "chained cum val prev (r # rs) = (cum r = q2 (prev + val r) \<and> chained cum val (cum r) rs)"

text \<open>
  The values \<open>refresh_project_snapshots\<close> computes for a list of months, apart from their
  storage, and the storage of a list of computed values one after the other.
\<close>

fun month_snapshots ::
  "uuid \<Rightarrow> (date \<rightharpoonup> bucket) \<Rightarrow> (date \<rightharpoonup> decimal) \<Rightarrow> (date \<rightharpoonup> decimal) \<Rightarrow> date list
     \<Rightarrow> decimal \<Rightarrow> decimal \<Rightarrow> decimal \<Rightarrow> snapshot list" where
  "month_snapshots pid totals revs invs [] cum_planned cum_actual cum_revenue = []"
| "month_snapshots pid totals revs invs (mth # months) cum_planned cum_actual cum_revenue =
     (let v = month_snapshot pid totals revs invs mth cum_planned cum_actual cum_revenue
      in v # month_snapshots pid totals revs invs months
               (snap_cumulative_planned_cost v) (snap_cumulative_actual_cost v)
               (snap_cumulative_revenue v))"

definition store_snapshots :: "db \<Rightarrow> snapshot list \<Rightarrow> db" where
  "store_snapshots d vs = foldl (\<lambda>d v. snd (upsert_snapshot d v)) d vs"

section \<open>The end-to-end scenario of the specification\<close>

text \<open>
  A project from 2026-01 to 2026-03. Performer A has a business-unit default day rate of
  100.00 for January only and a project day rate of 200.00 from February on; performer B has
  a business-unit default monthly rate of 2000.00 from January on. A plans 2.00 and books
  1.00 person days in January, 3.00 and 2.00 in February; B plans 1.00 and books 0.50 in
  January.
\<close>

definition default_settings :: settings where
  "default_settings = \<lparr> cost_fte_month_working_days = 20 \<rparr>"

definition scenario_project :: project where
  "scenario_project =
     \<lparr> project_id = ''p1'', project_business_unit_id = ''bu'', project_code = ''P1'',
       start_month = Date 2026 1 1, end_month = Date 2026 3 1 \<rparr>"

definition scenario_db :: db where
  "scenario_db =
     \<lparr> business_units = [''bu''],
       projects = [scenario_project],
       stages = [],
       tasks = [\<lparr> task_id = ''t1'', task_project_id = ''p1'', task_active = True \<rparr>],
       performers =
         [\<lparr> performer_id = ''a'', performer_business_unit_id = ''bu'', performer_active = True \<rparr>,
          \<lparr> performer_id = ''b'', performer_business_unit_id = ''bu'', performer_active = True \<rparr>],
       assignments =
         [\<lparr> assignment_task_id = ''t1'', assignment_performer_id = ''a'' \<rparr>,
          \<lparr> assignment_task_id = ''t1'', assignment_performer_id = ''b'' \<rparr>],
       effort_entries =
         [\<lparr> effort_project_id = ''p1'', effort_task_id = ''t1'', effort_performer_id = ''a'',
            effort_month_start = Date 2026 1 1, planned_person_days = 2, actual_person_days = 1 \<rparr>,
          \<lparr> effort_project_id = ''p1'', effort_task_id = ''t1'', effort_performer_id = ''a'',
            effort_month_start = Date 2026 2 1, planned_person_days = 3, actual_person_days = 2 \<rparr>,
          \<lparr> effort_project_id = ''p1'', effort_task_id = ''t1'', effort_performer_id = ''b'',
            effort_month_start = Date 2026 1 1, planned_person_days = 1, actual_person_days = 1 / 2 \<rparr>],
       rates =
         [\<lparr> rate_id = ''r1'', rate_business_unit_id = ''bu'', rate_performer_id = ''a'',
            rate_project_id = None, rate_unit = DAY, rate_value = 100,
            effective_from_month = Date 2026 1 1, effective_to_month = Some (Date 2026 1 1) \<rparr>,
          \<lparr> rate_id = ''r2'', rate_business_unit_id = ''bu'', rate_performer_id = ''a'',
            rate_project_id = Some ''p1'', rate_unit = DAY, rate_value = 200,
            effective_from_month = Date 2026 2 1, effective_to_month = None \<rparr>,
          \<lparr> rate_id = ''r3'', rate_business_unit_id = ''bu'', rate_performer_id = ''b'',
            rate_project_id = None, rate_unit = FTE_MONTH, rate_value = 2000,
            effective_from_month = Date 2026 1 1, effective_to_month = None \<rparr>],
       invoices = [],
       revenues =
         [\<lparr> revenue_project_id = ''p1'', revenue_month_start = Date 2026 2 1,
            revenue_amount_of = 1000 \<rparr>],
       financial_requests = [],
       snapshots = [] \<rparr>"

text \<open>The rollup rows and the snapshots expected for the scenario.\<close>

definition scenario_rows :: "rollup_row list" where
  "scenario_rows =
     [\<lparr> row_month_start = Date 2026 1 1, row_planned_person_days = 3,
        row_actual_person_days = 3 / 2, row_planned_cost = 300, row_actual_cost = 150,
        row_invoice_amount = 0, row_revenue_amount = 0, row_cumulative_planned_cost = 300,
        row_cumulative_actual_cost = 150, row_cumulative_revenue = 0 \<rparr>,
      \<lparr> row_month_start = Date 2026 2 1, row_planned_person_days = 3,
        row_actual_person_days = 2, row_planned_cost = 600, row_actual_cost = 400,
        row_invoice_amount = 0, row_revenue_amount = 1000, row_cumulative_planned_cost = 900,
        row_cumulative_actual_cost = 550, row_cumulative_revenue = 1000 \<rparr>,
      \<lparr> row_month_start = Date 2026 3 1, row_planned_person_days = 0,
        row_actual_person_days = 0, row_planned_cost = 0, row_actual_cost = 0,
        row_invoice_amount = 0, row_revenue_amount = 0, row_cumulative_planned_cost = 900,
        row_cumulative_actual_cost = 550, row_cumulative_revenue = 1000 \<rparr>]"

definition scenario_snapshots :: "snapshot list" where
  "scenario_snapshots =
     [\<lparr> snapshot_project_id = ''p1'', snapshot_month_start = Date 2026 1 1,
        snap_planned_person_days = 3, snap_actual_person_days = 3 / 2,
        snap_planned_cost = 300, snap_actual_cost = 150,
        snap_revenue_amount = 0, snap_invoice_amount = 0,
        snap_cumulative_planned_cost = 300, snap_cumulative_actual_cost = 150,
        snap_cumulative_revenue = 0 \<rparr>,
      \<lparr> snapshot_project_id = ''p1'', snapshot_month_start = Date 2026 2 1,
        snap_planned_person_days = 3, snap_actual_person_days = 2,
        snap_planned_cost = 600, snap_actual_cost = 400,
        snap_revenue_amount = 1000, snap_invoice_amount = 0,
        snap_cumulative_planned_cost = 900, snap_cumulative_actual_cost = 550,
        snap_cumulative_revenue = 1000 \<rparr>,
      \<lparr> snapshot_project_id = ''p1'', snapshot_month_start = Date 2026 3 1,
        snap_planned_person_days = 0, snap_actual_person_days = 0,
        snap_planned_cost = 0, snap_actual_cost = 0,
        snap_revenue_amount = 0, snap_invoice_amount = 0,
        snap_cumulative_planned_cost = 900, snap_cumulative_actual_cost = 550,
        snap_cumulative_revenue = 1000 \<rparr>]"

section \<open>Invariants of the stored data\<close>

text \<open>
  \<open>create_project\<close> and \<open>update_project\<close> store only normalized month starts as project
  bounds. Snapshot rows are written by the refresh only, for months of the month sequence,
  and the table has a uniqueness constraint on project and month: the months of a project's
  snapshots are month starts and pairwise different.
\<close>

definition project_months_valid :: "db \<Rightarrow> bool" where
  "project_months_valid d =
     list_all (\<lambda>p. month_start (start_month p) \<and> month_start (end_month p)) (projects d)"

definition snapshot_months :: "db \<Rightarrow> uuid \<Rightarrow> date list" where
  "snapshot_months d pid =
     map snapshot_month_start (filter (\<lambda>s. snapshot_project_id s = pid) (snapshots d))"

definition snapshot_keys_valid :: "db \<Rightarrow> uuid \<Rightarrow> bool" where
  "snapshot_keys_valid d pid \<longleftrightarrow>
     distinct (snapshot_months d pid) \<and> list_all month_start (snapshot_months d pid)"

text \<open>
  The scenario as a shrink of the project range from April to March 2026 leaves it: one
  snapshot row of the project for April 2026 is still stored.
\<close>

definition scenario_db_after_shrink :: db where
  "scenario_db_after_shrink =
     scenario_db \<lparr> snapshots :=
       [\<lparr> snapshot_project_id = ''p1'', snapshot_month_start = Date 2026 4 1,
          snap_planned_person_days = 7, snap_actual_person_days = 7,
          snap_planned_cost = 700, snap_actual_cost = 700,
          snap_revenue_amount = 0, snap_invoice_amount = 0,
          snap_cumulative_planned_cost = 1600, snap_cumulative_actual_cost = 1250,
          snap_cumulative_revenue = 1000 \<rparr>] \<rparr>"

section \<open>Sessions and access\<close>

text \<open>
  A request works on a database session, opened on the committed rows and closed when the
  request ends. \<open>pending\<close> is the session's view: the objects it has loaded, added and
  modified, with the values assigned to them. \<open>commit\<close> makes the pending rows the
  committed state, as the columns store them, and expires the objects of the session;
  \<open>rollback\<close> discards the pending rows. A session that is closed without a commit loses
  its pending rows. The session is taken with the defaults of the ORM: it flushes before a
  query and expires its objects on commit.
\<close>

record session =
  committed :: db
  pending :: db

definition commit :: "session \<Rightarrow> session" where
  "commit s = \<lparr> committed = stored (pending s), pending = stored (pending s) \<rparr>"

definition rollback :: "session \<Rightarrow> session" where
  "rollback s = s \<lparr> pending := committed s \<rparr>"

datatype app_role = SUPER_ADMIN | BUSINESS_UNIT_ADMIN | EDITOR | VIEWER

record effective_role_assignment =
  role :: app_role
  role_business_unit_id :: "uuid option"

record request_user_context =
  roles :: "effective_role_assignment list"

definition EDIT_ROLES :: "app_role set" where
  "EDIT_ROLES = {SUPER_ADMIN, BUSINESS_UNIT_ADMIN, EDITOR}"

definition VIEW_ROLES :: "app_role set" where
  "VIEW_ROLES = {SUPER_ADMIN, BUSINESS_UNIT_ADMIN, EDITOR, VIEWER}"

definition is_super_admin :: "request_user_context \<Rightarrow> bool" where
  "is_super_admin ctx \<longleftrightarrow> SUPER_ADMIN \<in> set (map role (roles ctx))"

definition has_business_unit_access :: "request_user_context \<Rightarrow> uuid \<Rightarrow> app_role set \<Rightarrow> bool" where
  "has_business_unit_access ctx bu allowed_roles =
     (if is_super_admin ctx then SUPER_ADMIN \<in> allowed_roles
      else \<exists>a \<in> set (roles ctx). role_business_unit_id a = Some bu \<and> role a \<in> allowed_roles)"

definition HTTP_403_FORBIDDEN :: nat where
  "HTTP_403_FORBIDDEN = 403"

definition reject :: "string \<Rightarrow> error + 'a" where
  "reject msg = Inl (HTTPException HTTP_422_UNPROCESSABLE_ENTITY msg)"

definition forbidden :: "error + 'a" where
  "forbidden = Inl (HTTPException HTTP_403_FORBIDDEN
     ''Insufficient business unit scope permissions for this operation.'')"

definition ensure_project_access ::
  "db \<Rightarrow> request_user_context \<Rightarrow> uuid \<Rightarrow> app_role set \<Rightarrow> error + project" where
  "ensure_project_access d ctx pid allowed_roles =
     (case get_project d pid of
        None \<Rightarrow> Inl (HTTPException HTTP_404_NOT_FOUND ''Project not found.'')
      | Some p \<Rightarrow>
          if \<not> has_business_unit_access ctx (project_business_unit_id p) allowed_roles
          then forbidden else Inr p)"

section \<open>Month windows of the read operations\<close>

text \<open>\<open>x or default\<close> for an optional date: a date is never falsy.\<close>

definition or_else :: "'a option \<Rightarrow> 'a \<Rightarrow> 'a" where
  "or_else x dflt = (case x of None \<Rightarrow> dflt | Some v \<Rightarrow> v)"

text \<open>
  \<open>_report_month_range\<close>, with which the four reports and the project dashboard open.
\<close>

definition report_month_range ::
  "project \<Rightarrow> date option \<Rightarrow> date option \<Rightarrow> error + date \<times> date \<times> date list" where
  "report_month_range p from_month to_month =
     (case normalize_month_start (or_else from_month (start_month p)) of
        Inl e \<Rightarrow> Inl e
      | Inr report_from \<Rightarrow>
          (case normalize_month_start (or_else to_month (end_month p)) of
             Inl e \<Rightarrow> Inl e
           | Inr report_to \<Rightarrow>
               if report_from < start_month p \<or> end_month p < report_to
               then reject ''Requested report month range must be within project month range.''
               else if report_to < report_from
               then reject ''to_month must be greater than or equal to from_month.''
               else (case month_sequence report_from report_to of
                       Inl e \<Rightarrow> Inl e
                     | Inr months \<Rightarrow> Inr (report_from, report_to, months))))"

definition project_finance_summary ::
  "settings \<Rightarrow> db \<Rightarrow> request_user_context \<Rightarrow> uuid \<Rightarrow> date option \<Rightarrow> date option
     \<Rightarrow> error + date \<times> date \<times> rollup_row list" where
  "project_finance_summary st d ctx pid from_month to_month =
     (case ensure_project_access d ctx pid VIEW_ROLES of
        Inl e \<Rightarrow> Inl e
      | Inr p \<Rightarrow>
          (case normalize_month_start (or_else from_month (start_month p)) of
             Inl e \<Rightarrow> Inl e
           | Inr summary_from \<Rightarrow>
               (case normalize_month_start (or_else to_month (end_month p)) of
                  Inl e \<Rightarrow> Inl e
                | Inr summary_to \<Rightarrow>
                    if summary_from < start_month p \<or> end_month p < summary_to
                    then reject ''Requested summary month range must be within project month range.''
                    else if summary_to < summary_from
                    then reject ''to_month must be greater than or equal to from_month.''
                    else (case project_monthly_rollups st d p summary_from summary_to of
                            Inl e \<Rightarrow> Inl e
                          | Inr rollups \<Rightarrow> Inr (summary_from, summary_to, rollups)))))"

text \<open>
  The opening of \<open>read_matrix\<close>: access, window validation and the months of the window.
  What follows in the source lists the stored rows of the window and serializes them.
\<close>

definition read_matrix_months ::
  "db \<Rightarrow> request_user_context \<Rightarrow> uuid \<Rightarrow> date option \<Rightarrow> date option \<Rightarrow> error + date list" where
  "read_matrix_months d ctx pid from_month to_month =
     (case ensure_project_access d ctx pid VIEW_ROLES of
        Inl e \<Rightarrow> Inl e
      | Inr p \<Rightarrow>
          (case normalize_month_start (or_else from_month (start_month p)) of
             Inl e \<Rightarrow> Inl e
           | Inr matrix_from \<Rightarrow>
               (case normalize_month_start (or_else to_month (end_month p)) of
                  Inl e \<Rightarrow> Inl e
                | Inr matrix_to \<Rightarrow>
                    if matrix_from < start_month p \<or> end_month p < matrix_to
                    then reject ''Requested matrix month range must be within project month range.''
                    else if matrix_to < matrix_from
                    then reject ''to_month must be greater than or equal to from_month.''
                    else month_sequence matrix_from matrix_to)))"

text \<open>
  The project dashboard: the window, the rollup of the window, and for every month the
  cumulative margin and the realization percentage with its safe division.
\<close>

record realization_row =
  rz_month_start :: date
  rz_cumulative_revenue :: decimal
  rz_cumulative_actual_cost :: decimal
  rz_cumulative_margin :: decimal
  rz_realization_percent :: decimal

definition realization_of :: "rollup_row list \<Rightarrow> date \<Rightarrow> realization_row" where
  "realization_of rollups mth =
     (let row = find (\<lambda>r. row_month_start r = mth) (rev rollups);
          cumulative_actual = q2 (case row of None \<Rightarrow> ZERO | Some r \<Rightarrow> row_cumulative_actual_cost r);
          cumulative_revenue = q2 (case row of None \<Rightarrow> ZERO | Some r \<Rightarrow> row_cumulative_revenue r)
      in \<lparr> rz_month_start = mth,
           rz_cumulative_revenue = cumulative_revenue,
           rz_cumulative_actual_cost = cumulative_actual,
           rz_cumulative_margin = q2 (decimal_sub cumulative_revenue cumulative_actual),
           rz_realization_percent =
             safe_div (decimal_mul cumulative_actual 100) cumulative_revenue \<rparr>)"

definition project_dashboard ::
  "settings \<Rightarrow> db \<Rightarrow> request_user_context \<Rightarrow> uuid \<Rightarrow> date option \<Rightarrow> date option
     \<Rightarrow> error + rollup_row list \<times> realization_row list" where
  "project_dashboard st d ctx pid from_month to_month =
     (case ensure_project_access d ctx pid VIEW_ROLES of
        Inl e \<Rightarrow> Inl e
      | Inr p \<Rightarrow>
          (case report_month_range p from_month to_month of
             Inl e \<Rightarrow> Inl e
           | Inr (report_from, report_to, months) \<Rightarrow>
               (case project_monthly_rollups st d p report_from report_to of
                  Inl e \<Rightarrow> Inl e
                | Inr rollups \<Rightarrow> Inr (rollups, map (realization_of rollups) months))))"

text \<open>
  The opening of \<open>business_unit_dashboard\<close>: a unit without projects gets an empty dashboard
  (\<open>None\<close>) before the bounds are looked at; otherwise the bounds default to the earliest
  start and the latest end of the unit's projects and are normalized.
\<close>

definition list_projects_for_business_unit :: "db \<Rightarrow> uuid \<Rightarrow> project list" where
  "list_projects_for_business_unit d bu =
     sort_key project_code (filter (\<lambda>p. project_business_unit_id p = bu) (projects d))"

definition business_unit_dashboard_window ::
  "db \<Rightarrow> request_user_context \<Rightarrow> uuid \<Rightarrow> date option \<Rightarrow> date option
     \<Rightarrow> error + (date \<times> date \<times> date list) option" where
  "business_unit_dashboard_window d ctx bu from_month to_month =
     (if \<not> has_business_unit_access ctx bu VIEW_ROLES then forbidden
      else
        (case list_projects_for_business_unit d bu of
           [] \<Rightarrow> Inr None
         | p # ps \<Rightarrow>
             (let min_project_month = foldl min (start_month p) (map start_month ps);
                  max_project_month = foldl max (end_month p) (map end_month ps)
              in case normalize_month_start (or_else from_month min_project_month) of
                   Inl e \<Rightarrow> Inl e
                 | Inr report_from \<Rightarrow>
                     (case normalize_month_start (or_else to_month max_project_month) of
                        Inl e \<Rightarrow> Inl e
                      | Inr report_to \<Rightarrow>
                          if report_to < report_from
                          then reject ''to_month must be greater than or equal to from_month.''
                          else (case month_sequence report_from report_to of
                                  Inl e \<Rightarrow> Inl e
                                | Inr months \<Rightarrow> Inr (Some (report_from, report_to, months)))))))"

section \<open>Filters of the reports\<close>

fun join :: "string \<Rightarrow> string list \<Rightarrow> string" where
  "join sep [] = []"
| "join sep [x] = x"
| "join sep (x # y # ys) = x @ sep @ join sep (y # ys)"

text \<open>
  \<open>_resolve_filters\<close>: an absent or empty identifier list is no filter; otherwise the
  identifiers are taken as a set, and those that are not tasks of the project (performers of
  the business unit) are listed, sorted, in the error. The label dictionaries the source
  also returns are projections of the listings and are left out.
\<close>

definition filter_set :: "uuid list option \<Rightarrow> uuid set option" where
  "filter_set ids = (case ids of None \<Rightarrow> None | Some [] \<Rightarrow> None | Some xs \<Rightarrow> Some (set xs))"

definition unknown_ids :: "uuid list option \<Rightarrow> uuid list \<Rightarrow> uuid list" where
  "unknown_ids ids known =
     (case ids of None \<Rightarrow> [] | Some xs \<Rightarrow> sort (remdups (filter (\<lambda>i. i \<notin> set known) xs)))"

definition resolve_filters ::
  "db \<Rightarrow> uuid \<Rightarrow> uuid \<Rightarrow> uuid list option \<Rightarrow> uuid list option
     \<Rightarrow> error + uuid set option \<times> uuid set option" where
  "resolve_filters d pid bu performer_ids task_ids =
     (let task_map = map task_id (list_tasks d pid);
          performer_map = map performer_id (list_performers_for_business_unit d bu)
      in if unknown_ids task_ids task_map \<noteq> []
         then reject (''Unknown task_id values for this project: ''
                        @ join '', '' (unknown_ids task_ids task_map))
         else if unknown_ids performer_ids performer_map \<noteq> []
         then reject (''Unknown performer_id values for this project business unit: ''
                        @ join '', '' (unknown_ids performer_ids performer_map))
         else Inr (filter_set performer_ids, filter_set task_ids))"

text \<open>The opening shared by the four reports: access, window, filters.\<close>

definition report_prologue ::
  "db \<Rightarrow> request_user_context \<Rightarrow> uuid \<Rightarrow> date option \<Rightarrow> date option
     \<Rightarrow> uuid list option \<Rightarrow> uuid list option
     \<Rightarrow> error + (date \<times> date \<times> date list) \<times> (uuid set option \<times> uuid set option)" where
  "report_prologue d ctx pid from_month to_month performer_ids task_ids =
     (case ensure_project_access d ctx pid VIEW_ROLES of
        Inl e \<Rightarrow> Inl e
      | Inr p \<Rightarrow>
          (case report_month_range p from_month to_month of
             Inl e \<Rightarrow> Inl e
           | Inr window \<Rightarrow>
               (case resolve_filters d (project_id p) (project_business_unit_id p)
                       performer_ids task_ids of
                  Inl e \<Rightarrow> Inl e
                | Inr filters \<Rightarrow> Inr (window, filters))))"

section \<open>Financial registers\<close>

text \<open>
  \<open>create_financial_request\<close>, \<open>create_invoice\<close> and \<open>create_revenue\<close>: validation, the new
  row, a snapshot refresh, a commit. An exception of the refresh leaves the session with the
  row pending and nothing committed. Columns without bearing on months and amounts are left
  out.
\<close>

record register_create_data =
  data_month_start :: date
  data_amount :: decimal

definition validate_non_negative_amount :: "decimal \<Rightarrow> string \<Rightarrow> error + unit" where
  "validate_non_negative_amount v field_name =
     (if v < ZERO then reject (field_name @ '' must be greater or equal zero.'') else Inr ())"

definition register_month ::
  "db \<Rightarrow> request_user_context \<Rightarrow> uuid \<Rightarrow> register_create_data \<Rightarrow> error + project \<times> date" where
  "register_month d ctx pid data =
     (case ensure_project_access d ctx pid EDIT_ROLES of
        Inl e \<Rightarrow> Inl e
      | Inr p \<Rightarrow>
          (case normalize_month_start (data_month_start data) of
             Inl e \<Rightarrow> Inl e
           | Inr mth \<Rightarrow>
               (case validate_non_negative_amount (data_amount data) ''amount'' of
                  Inl e \<Rightarrow> Inl e
                | Inr _ \<Rightarrow>
                    if mth < start_month p \<or> end_month p < mth
                    then reject ''Financial register month_start must be within project month range.''
                    else Inr (p, mth))))"

definition refresh_and_commit ::
  "settings \<Rightarrow> session \<Rightarrow> db \<Rightarrow> uuid \<Rightarrow> 'a \<Rightarrow> (error + 'a) \<times> session" where
  "refresh_and_commit st s d1 pid row =
     (case refresh_project_snapshots st d1 pid of
        Inl e \<Rightarrow> (Inl e, s \<lparr> pending := d1 \<rparr>)
      | Inr (snaps, d2) \<Rightarrow> (Inr row, commit (s \<lparr> pending := d2 \<rparr>)))"

definition create_financial_request ::
  "settings \<Rightarrow> request_user_context \<Rightarrow> session \<Rightarrow> uuid \<Rightarrow> register_create_data
     \<Rightarrow> (error + financial_request) \<times> session" where
  "create_financial_request st ctx s pid data =
     (case register_month (pending s) ctx pid data of
        Inl e \<Rightarrow> (Inl e, s)
      | Inr (p, mth) \<Rightarrow>
          (let row = \<lparr> request_project_id = project_id p, request_month_start = mth,
                       request_amount_of = data_amount data \<rparr>
           in refresh_and_commit st s
                ((pending s) \<lparr> financial_requests := financial_requests (pending s) @ [row] \<rparr>)
                (project_id p) row))"

definition create_invoice ::
  "settings \<Rightarrow> request_user_context \<Rightarrow> session \<Rightarrow> uuid \<Rightarrow> register_create_data
     \<Rightarrow> (error + invoice) \<times> session" where
  "create_invoice st ctx s pid data =
     (case register_month (pending s) ctx pid data of
        Inl e \<Rightarrow> (Inl e, s)
      | Inr (p, mth) \<Rightarrow>
          (let row = \<lparr> invoice_project_id = project_id p, invoice_month_start = mth,
                       invoice_amount_of = data_amount data \<rparr>
           in refresh_and_commit st s
                ((pending s) \<lparr> invoices := invoices (pending s) @ [row] \<rparr>)
                (project_id p) row))"

definition create_revenue ::
  "settings \<Rightarrow> request_user_context \<Rightarrow> session \<Rightarrow> uuid \<Rightarrow> register_create_data
     \<Rightarrow> (error + revenue) \<times> session" where
  "create_revenue st ctx s pid data =
     (case register_month (pending s) ctx pid data of
        Inl e \<Rightarrow> (Inl e, s)
      | Inr (p, mth) \<Rightarrow>
          (let row = \<lparr> revenue_project_id = project_id p, revenue_month_start = mth,
                       revenue_amount_of = data_amount data \<rparr>
           in refresh_and_commit st s
                ((pending s) \<lparr> revenues := revenues (pending s) @ [row] \<rparr>)
                (project_id p) row))"

section \<open>Projects and stages\<close>

text \<open>
  \<open>str.strip()\<close> on the ASCII range: tab, line feed, vertical tab, form feed, carriage
  return, the four separators 28 to 31 and the space are whitespace.
\<close>

definition is_space :: "char \<Rightarrow> bool" where
  "is_space c \<longleftrightarrow> of_char c \<in> {9, 10, 11, 12, 13, 28, 29, 30, 31, 32 :: nat}"

definition strip :: "string \<Rightarrow> string" where
  "strip x = rev (dropWhile is_space (rev (dropWhile is_space x)))"

record project_create_data =
  create_code :: string
  create_start_month :: date
  create_end_month :: date

record project_update_data =
  update_code :: "string option"
  update_start_month :: "date option"
  update_end_month :: "date option"

text \<open>
  A project row whose code another project of the business unit already has violates a
  uniqueness constraint. The violation surfaces at the flush of the row, in
  \<open>add_project\<close> and in \<open>delete_snapshots_outside_range\<close>, ahead of the \<open>try\<close> around the
  commit, so the integrity error leaves the service as it is.
\<close>

definition code_conflict :: "db \<Rightarrow> project \<Rightarrow> bool" where
  "code_conflict d p \<longleftrightarrow>
     (\<exists>q \<in> set (projects d). project_id q \<noteq> project_id p \<and>
        project_business_unit_id q = project_business_unit_id p \<and> project_code q = project_code p)"

definition create_project ::
  "request_user_context \<Rightarrow> session \<Rightarrow> uuid \<Rightarrow> uuid \<Rightarrow> project_create_data
     \<Rightarrow> (error + project) \<times> session" where
  "create_project ctx s new_id bu data =
     (if bu \<notin> set (business_units (pending s))
      then (Inl (HTTPException HTTP_404_NOT_FOUND ''Business unit not found.''), s)
      else if \<not> has_business_unit_access ctx bu EDIT_ROLES then (forbidden, s)
      else
        (case normalize_month_start (create_start_month data) of
           Inl e \<Rightarrow> (Inl e, s)
         | Inr start_m \<Rightarrow>
             (case normalize_month_start (create_end_month data) of
                Inl e \<Rightarrow> (Inl e, s)
              | Inr end_m \<Rightarrow>
                  if end_m < start_m
                  then (reject ''end_month must be greater than or equal to start_month.'', s)
                  else
                    (let p = \<lparr> project_id = new_id, project_business_unit_id = bu,
                               project_code = strip (create_code data),
                               start_month = start_m, end_month = end_m \<rparr>
                     in if code_conflict (pending s) p then (Inl IntegrityError, s)
                        else (Inr p,
                              commit (s \<lparr> pending :=
                                (pending s) \<lparr> projects := projects (pending s) @ [p] \<rparr> \<rparr>))))))"

definition effort_outside_project_range_count :: "db \<Rightarrow> uuid \<Rightarrow> date \<Rightarrow> date \<Rightarrow> nat" where
  "effort_outside_project_range_count d pid start_m end_m =
     length (filter (\<lambda>e. effort_project_id e = pid \<and>
                         (effort_month_start e < start_m \<or> end_m < effort_month_start e))
               (effort_entries d))"

definition normalize_optional :: "date option \<Rightarrow> date \<Rightarrow> error + date" where
  "normalize_optional given current =
     (case given of None \<Rightarrow> Inr current | Some v \<Rightarrow> normalize_month_start v)"

definition update_project ::
  "settings \<Rightarrow> request_user_context \<Rightarrow> session \<Rightarrow> uuid \<Rightarrow> project_update_data
     \<Rightarrow> (error + project) \<times> session" where
  "update_project st ctx s pid data =
     (case ensure_project_access (pending s) ctx pid EDIT_ROLES of
        Inl e \<Rightarrow> (Inl e, s)
      | Inr p \<Rightarrow>
          (case normalize_optional (update_start_month data) (start_month p) of
             Inl e \<Rightarrow> (Inl e, s)
           | Inr target_start \<Rightarrow>
               (case normalize_optional (update_end_month data) (end_month p) of
                  Inl e \<Rightarrow> (Inl e, s)
                | Inr target_end \<Rightarrow>
                    if target_end < target_start
                    then (reject ''end_month must be greater than or equal to start_month.'', s)
                    else if effort_outside_project_range_count (pending s) (project_id p)
                              target_start target_end \<noteq> 0
                    then (reject ''Cannot shrink project month range while effort entries exist outside new range.'', s)
                    else
                      (let p' = p \<lparr> project_code :=
                                       (case update_code data of None \<Rightarrow> project_code p
                                        | Some c \<Rightarrow> strip c),
                                     start_month := target_start, end_month := target_end \<rparr>;
                           d1 = (pending s) \<lparr> projects :=
                                  update_first (\<lambda>q. project_id q = pid) (\<lambda>q. p') (projects (pending s)) \<rparr>;
                           d2 = delete_snapshots_outside_range d1 (project_id p) target_start target_end
                       in if code_conflict d1 p' then (Inl IntegrityError, s)
                          else
                            (case refresh_project_snapshots st d2 (project_id p) of
                               Inl e \<Rightarrow> (Inl e, s \<lparr> pending := d2 \<rparr>)
                             | Inr (snaps, d3) \<Rightarrow> (Inr p', commit (s \<lparr> pending := d3 \<rparr>)))))))"

record stage_create_data =
  stage_create_start_month :: date
  stage_create_end_month :: date

record stage_update_data =
  stage_update_start_month :: "date option"
  stage_update_end_month :: "date option"

definition check_stage_range :: "project \<Rightarrow> date \<Rightarrow> date \<Rightarrow> error + unit" where
  "check_stage_range p start_m end_m =
     (if end_m < start_m
      then reject ''stage end_month must be greater than or equal to start_month.''
      else if start_m < start_month p \<or> end_month p < end_m
      then reject ''Stage month range must be within project month range.''
      else Inr ())"

definition create_stage ::
  "request_user_context \<Rightarrow> session \<Rightarrow> uuid \<Rightarrow> uuid \<Rightarrow> stage_create_data
     \<Rightarrow> (error + stage) \<times> session" where
  "create_stage ctx s new_id pid data =
     (case ensure_project_access (pending s) ctx pid EDIT_ROLES of
        Inl e \<Rightarrow> (Inl e, s)
      | Inr p \<Rightarrow>
          (case normalize_month_start (stage_create_start_month data) of
             Inl e \<Rightarrow> (Inl e, s)
           | Inr start_m \<Rightarrow>
               (case normalize_month_start (stage_create_end_month data) of
                  Inl e \<Rightarrow> (Inl e, s)
                | Inr end_m \<Rightarrow>
                    (case check_stage_range p start_m end_m of
                       Inl e \<Rightarrow> (Inl e, s)
                     | Inr _ \<Rightarrow>
                         (let row = \<lparr> stage_id = new_id, stage_project_id = pid,
                                      stage_start_month = start_m, stage_end_month = end_m \<rparr>
                          in (Inr row,
                              commit (s \<lparr> pending :=
                                (pending s) \<lparr> stages := stages (pending s) @ [row] \<rparr> \<rparr>)))))))"

definition get_stage :: "db \<Rightarrow> uuid \<Rightarrow> stage option" where
  "get_stage d sid = find (\<lambda>x. stage_id x = sid) (stages d)"

definition update_stage ::
  "request_user_context \<Rightarrow> session \<Rightarrow> uuid \<Rightarrow> uuid \<Rightarrow> stage_update_data
     \<Rightarrow> (error + stage) \<times> session" where
  "update_stage ctx s pid sid data =
     (case ensure_project_access (pending s) ctx pid EDIT_ROLES of
        Inl e \<Rightarrow> (Inl e, s)
      | Inr p \<Rightarrow>
          (case get_stage (pending s) sid of
             None \<Rightarrow> (Inl (HTTPException HTTP_404_NOT_FOUND ''Project stage not found.''), s)
           | Some x \<Rightarrow>
               if stage_project_id x \<noteq> project_id p
               then (Inl (HTTPException HTTP_404_NOT_FOUND ''Project stage not found.''), s)
               else
                 (case normalize_optional (stage_update_start_month data) (stage_start_month x) of
                    Inl e \<Rightarrow> (Inl e, s)
                  | Inr target_start \<Rightarrow>
                      (case normalize_optional (stage_update_end_month data) (stage_end_month x) of
                         Inl e \<Rightarrow> (Inl e, s)
                       | Inr target_end \<Rightarrow>
                           (case check_stage_range p target_start target_end of
                              Inl e \<Rightarrow> (Inl e, s)
                            | Inr _ \<Rightarrow>
                                (let x' = x \<lparr> stage_start_month := target_start,
                                              stage_end_month := target_end \<rparr>
                                 in (Inr x',
                                     commit (s \<lparr> pending :=
                                       (pending s) \<lparr> stages :=
                                          update_first (\<lambda>y. stage_id y = sid) (\<lambda>y. x')
                                            (stages (pending s)) \<rparr> \<rparr>))))))))"

section \<open>Bulk upserts\<close>

text \<open>
  \<open>{row.id: row for row in rows}.get(key)\<close>: of several rows with one key the last one
  stays in the dictionary.
\<close>

definition lookup_by :: "('a \<Rightarrow> 'k) \<Rightarrow> 'a list \<Rightarrow> 'k \<Rightarrow> 'a option" where
  "lookup_by key rows k = find (\<lambda>row. key row = k) (rev rows)"

text \<open>
  What the two bulk upserts do with an exception raised inside \<open>with self.db.begin_nested()\<close>:
  the savepoint is rolled back in every case; an \<open>HTTPException\<close> rolls the session back
  and is raised again, an \<open>IntegrityError\<close> rolls the session back and becomes a 409, any
  other exception leaves the function as it is. In each case nothing is committed.
\<close>

definition savepoint_failure :: "string \<Rightarrow> session \<Rightarrow> error \<Rightarrow> (error + 'a) \<times> session" where
  "savepoint_failure conflict_detail s e =
     (case e of
        HTTPException c m \<Rightarrow> (Inl e, rollback s)
      | IntegrityError \<Rightarrow> (Inl (HTTPException HTTP_409_CONFLICT conflict_detail), rollback s)
      | ValueError \<Rightarrow> (Inl e, s))"

subsection \<open>Matrix entries\<close>

record matrix_entry_input =
  input_task_id :: uuid
  input_performer_id :: uuid
  input_month_start :: date
  input_planned_person_days :: decimal
  input_actual_person_days :: decimal

record matrix_upsert_result =
  updated_entries :: nat
  result_snapshots :: "snapshot list"

text \<open>
  The body of the validation loop of \<open>bulk_upsert_matrix_entries\<close> for one payload, given the
  keys seen so far: the normalized entry, or the exception of the first check that fails.
\<close>

definition check_matrix_entry ::
  "project \<Rightarrow> task list \<Rightarrow> performer list \<Rightarrow> assignment list \<Rightarrow> (uuid \<times> uuid \<times> date) list
     \<Rightarrow> matrix_entry_input \<Rightarrow> error + matrix_entry_input" where
  "check_matrix_entry p task_rows performer_rows assignment_rows seen_keys payload =
     (case normalize_month_start (input_month_start payload) of
        Inl e \<Rightarrow> Inl e
      | Inr mth \<Rightarrow>
          if input_planned_person_days payload < ZERO \<or> input_actual_person_days payload < ZERO
          then reject ''planned_person_days and actual_person_days must be greater or equal zero.''
          else if mth < start_month p \<or> end_month p < mth
          then reject ''Matrix edits outside project month range are rejected.''
          else
            (case lookup_by task_id task_rows (input_task_id payload) of
               None \<Rightarrow> reject ''task_id must reference task in this project.''
             | Some task \<Rightarrow>
                 if \<not> task_active task then reject ''Edits for inactive task are rejected.''
                 else
                   (case lookup_by performer_id performer_rows (input_performer_id payload) of
                      None \<Rightarrow>
                        reject ''performer_id must reference performer in project business unit.''
                    | Some performer \<Rightarrow>
                        if \<not> performer_active performer
                        then reject ''Edits for inactive performer are rejected.''
                        else if (task_id task, performer_id performer) \<notin>
                                  set (map (\<lambda>a. (assignment_task_id a, assignment_performer_id a))
                                         assignment_rows)
                        then reject ''Task-performer pair must be assigned before matrix edits.''
                        else if (task_id task, performer_id performer, mth) \<in> set seen_keys
                        then reject ''Duplicate matrix entry key in bulk payload.''
                        else Inr \<lparr> input_task_id = task_id task,
                                   input_performer_id = performer_id performer,
                                   input_month_start = mth,
                                   input_planned_person_days = input_planned_person_days payload,
                                   input_actual_person_days = input_actual_person_days payload \<rparr>)))"

fun normalize_matrix_entries ::
  "project \<Rightarrow> task list \<Rightarrow> performer list \<Rightarrow> assignment list \<Rightarrow> matrix_entry_input list
     \<Rightarrow> (uuid \<times> uuid \<times> date) list \<Rightarrow> matrix_entry_input list
     \<Rightarrow> error + matrix_entry_input list" where
  "normalize_matrix_entries p task_rows performer_rows assignment_rows [] seen_keys normalized =
     Inr normalized"
| "normalize_matrix_entries p task_rows performer_rows assignment_rows (payload # entries)
     seen_keys normalized =
     (case check_matrix_entry p task_rows performer_rows assignment_rows seen_keys payload of
        Inl e \<Rightarrow> Inl e
      | Inr n \<Rightarrow>
          normalize_matrix_entries p task_rows performer_rows assignment_rows entries
            (seen_keys @ [(input_task_id n, input_performer_id n, input_month_start n)])
            (normalized @ [n]))"

definition effort_key :: "uuid \<Rightarrow> matrix_entry_input \<Rightarrow> effort_entry \<Rightarrow> bool" where
  "effort_key pid payload e \<longleftrightarrow>
     effort_project_id e = pid \<and> effort_task_id e = input_task_id payload \<and>
     effort_performer_id e = input_performer_id payload \<and>
     effort_month_start e = input_month_start payload"

definition get_effort_entry :: "db \<Rightarrow> uuid \<Rightarrow> matrix_entry_input \<Rightarrow> effort_entry option" where
  "get_effort_entry d pid payload = find (effort_key pid payload) (effort_entries d)"

definition add_effort_entry :: "db \<Rightarrow> effort_entry \<Rightarrow> db" where
  "add_effort_entry d e = d \<lparr> effort_entries := effort_entries d @ [e] \<rparr>"

text \<open>
  One turn of the write loop: a new row with the payload's values, or the two values of the
  row found assigned.
\<close>

definition persist_matrix_entry :: "project \<Rightarrow> db \<Rightarrow> matrix_entry_input \<Rightarrow> db" where
  "persist_matrix_entry p d payload =
     (case get_effort_entry d (project_id p) payload of
        None \<Rightarrow>
          add_effort_entry d
            \<lparr> effort_project_id = project_id p,
              effort_task_id = input_task_id payload,
              effort_performer_id = input_performer_id payload,
              effort_month_start = input_month_start payload,
              planned_person_days = input_planned_person_days payload,
              actual_person_days = input_actual_person_days payload \<rparr>
      | Some row \<Rightarrow>
          d \<lparr> effort_entries :=
                update_first (effort_key (project_id p) payload)
                  (\<lambda>e. e \<lparr> planned_person_days := input_planned_person_days payload,
                           actual_person_days := input_actual_person_days payload \<rparr>)
                  (effort_entries d) \<rparr>)"

definition bulk_upsert_matrix_entries ::
  "settings \<Rightarrow> request_user_context \<Rightarrow> session \<Rightarrow> uuid \<Rightarrow> matrix_entry_input list
     \<Rightarrow> (error + matrix_upsert_result) \<times> session" where
  "bulk_upsert_matrix_entries st ctx s pid entries =
     (case ensure_project_access (pending s) ctx pid EDIT_ROLES of
        Inl e \<Rightarrow> (Inl e, s)
      | Inr p \<Rightarrow>
          (case normalize_matrix_entries p
                  (list_tasks (pending s) (project_id p))
                  (list_performers_for_project (pending s) (project_id p)
                     (project_business_unit_id p))
                  (list_assignments_for_project (pending s) (project_id p))
                  entries [] [] of
             Inl e \<Rightarrow> (Inl e, s)
           | Inr normalized \<Rightarrow>
               (case refresh_project_snapshots st
                       (foldl (persist_matrix_entry p) (pending s) normalized) (project_id p) of
                  Inl e \<Rightarrow>
                    savepoint_failure ''Bulk matrix save violated entry uniqueness constraints.'' s e
                | Inr (snaps, d2) \<Rightarrow>
                    (Inr \<lparr> updated_entries = length normalized, result_snapshots = snaps \<rparr>,
                     commit (s \<lparr> pending := d2 \<rparr>)))))"

subsection \<open>Rates\<close>

record rate_entry_input =
  input_rate_performer_id :: uuid
  input_rate_project_id :: "uuid option"
  input_rate_unit :: rate_unit
  input_rate_value :: decimal
  input_effective_from_month :: date
  input_effective_to_month :: "date option"

definition validate_rate_range :: "date \<Rightarrow> date option \<Rightarrow> error + unit" where
  "validate_rate_range from_m to_m =
     (if to_m \<noteq> None \<and> the to_m < from_m
      then reject ''effective_to_month must be greater than or equal to effective_from_month.''
      else Inr ())"

definition normalize_optional_month :: "date option \<Rightarrow> error + date option" where
  "normalize_optional_month v =
     (case v of
        None \<Rightarrow> Inr None
      | Some d \<Rightarrow> (case normalize_month_start d of Inl e \<Rightarrow> Inl e | Inr m \<Rightarrow> Inr (Some m)))"

text \<open>
  The body of the validation loop of \<open>bulk_upsert_rates\<close> for one entry, given the keys seen
  so far.
\<close>

definition check_rate_entry ::
  "project \<Rightarrow> performer list \<Rightarrow> (uuid \<times> uuid option \<times> date) list \<Rightarrow> rate_entry_input
     \<Rightarrow> error + rate_entry_input" where
  "check_rate_entry p performer_rows seen_keys entry =
     (case normalize_month_start (input_effective_from_month entry) of
        Inl e \<Rightarrow> Inl e
      | Inr from_m \<Rightarrow>
          (case normalize_optional_month (input_effective_to_month entry) of
             Inl e \<Rightarrow> Inl e
           | Inr to_m \<Rightarrow>
               (case validate_rate_range from_m to_m of
                  Inl e \<Rightarrow> Inl e
                | Inr _ \<Rightarrow>
                    (case validate_non_negative_amount (input_rate_value entry) ''rate_value'' of
                       Inl e \<Rightarrow> Inl e
                     | Inr _ \<Rightarrow>
                         (case lookup_by performer_id performer_rows (input_rate_performer_id entry) of
                            None \<Rightarrow>
                              reject ''performer_id must reference performer in project business unit.''
                          | Some performer \<Rightarrow>
                              if input_rate_project_id entry \<noteq> None \<and>
                                 input_rate_project_id entry \<noteq> Some (project_id p)
                              then reject
                                ''project_id for rate entry must be either null or current project id.''
                              else if (performer_id performer, input_rate_project_id entry, from_m)
                                        \<in> set seen_keys
                              then reject ''Duplicate rate key in bulk payload.''
                              else Inr \<lparr> input_rate_performer_id = performer_id performer,
                                         input_rate_project_id = input_rate_project_id entry,
                                         input_rate_unit = input_rate_unit entry,
                                         input_rate_value = input_rate_value entry,
                                         input_effective_from_month = from_m,
                                         input_effective_to_month = to_m \<rparr>)))))"

fun normalize_rate_entries ::
  "project \<Rightarrow> performer list \<Rightarrow> rate_entry_input list \<Rightarrow> (uuid \<times> uuid option \<times> date) list
     \<Rightarrow> rate_entry_input list \<Rightarrow> error + rate_entry_input list" where
  "normalize_rate_entries p performer_rows [] seen_keys normalized = Inr normalized"
| "normalize_rate_entries p performer_rows (entry # entries) seen_keys normalized =
     (case check_rate_entry p performer_rows seen_keys entry of
        Inl e \<Rightarrow> Inl e
      | Inr n \<Rightarrow>
          normalize_rate_entries p performer_rows entries
            (seen_keys @ [(input_rate_performer_id n, input_rate_project_id n,
                           input_effective_from_month n)])
            (normalized @ [n]))"

definition rate_key :: "rate_entry_input \<Rightarrow> performer_rate \<Rightarrow> bool" where
  "rate_key entry r \<longleftrightarrow>
     rate_performer_id r = input_rate_performer_id entry \<and>
     rate_project_id r = input_rate_project_id entry \<and>
     effective_from_month r = input_effective_from_month entry"

definition get_rate :: "db \<Rightarrow> rate_entry_input \<Rightarrow> performer_rate option" where
  "get_rate d entry = find (rate_key entry) (rates d)"

definition add_rate :: "db \<Rightarrow> performer_rate \<Rightarrow> db" where
  "add_rate d r = d \<lparr> rates := rates d @ [r] \<rparr>"

definition list_conflicting_rates ::
  "db \<Rightarrow> uuid \<Rightarrow> uuid option \<Rightarrow> date \<Rightarrow> date option \<Rightarrow> uuid option \<Rightarrow> performer_rate list" where
  "list_conflicting_rates d perf proj from_m to_m exclude_rate_id =
     filter (\<lambda>r. rate_performer_id r = perf \<and> rate_project_id r = proj \<and>
                  effective_from_month r \<le> (case to_m of None \<Rightarrow> date_max | Some t \<Rightarrow> t) \<and>
                  (effective_to_month r = None \<or> from_m \<le> the (effective_to_month r)) \<and>
                  (case exclude_rate_id of None \<Rightarrow> True | Some x \<Rightarrow> rate_id r \<noteq> x))
       (rates d)"

text \<open>
  One turn of the write loop of \<open>bulk_upsert_rates\<close>: the row is added, under the identifier
  \<open>new_id\<close> that \<open>uuid4\<close> gives it, or the row found is updated; then the rows of the same
  performer and scope whose range meets the entry's, the written row apart, make the turn
  fail.
\<close>

definition persist_rate_entry ::
  "project \<Rightarrow> uuid \<Rightarrow> db \<Rightarrow> rate_entry_input \<Rightarrow> error + performer_rate \<times> db" where
  "persist_rate_entry p new_id d entry =
     (let (target, d1) =
            (case get_rate d entry of
               None \<Rightarrow>
                 (let row = \<lparr> rate_id = new_id,
                              rate_business_unit_id = project_business_unit_id p,
                              rate_performer_id = input_rate_performer_id entry,
                              rate_project_id = input_rate_project_id entry,
                              rate_unit = input_rate_unit entry,
                              rate_value = input_rate_value entry,
                              effective_from_month = input_effective_from_month entry,
                              effective_to_month = input_effective_to_month entry \<rparr>
                  in (row, add_rate d row))
             | Some existing \<Rightarrow>
                 (let row = existing \<lparr> rate_unit := input_rate_unit entry,
                                       rate_value := input_rate_value entry,
                                       effective_to_month := input_effective_to_month entry \<rparr>
                  in (row, d \<lparr> rates := update_first (rate_key entry) (\<lambda>_. row) (rates d) \<rparr>)));
          overlap = list_conflicting_rates d1 (input_rate_performer_id entry)
                      (input_rate_project_id entry) (input_effective_from_month entry)
                      (input_effective_to_month entry) (Some (rate_id target))
      in if overlap \<noteq> []
         then reject (''Rate effective range overlaps existing ''
                        @ (if input_rate_project_id entry \<noteq> None then ''project''
                           else ''business-unit default'')
                        @ '' rate for performer '' @ input_rate_performer_id entry @ ''.'')
         else Inr (target, d1))"

text \<open>
  The write loop; \<open>uuid4 k\<close> is the identifier generated for the \<open>k\<close>-th entry of the batch
  when it needs one.
\<close>

fun persist_rates ::
  "project \<Rightarrow> (nat \<Rightarrow> uuid) \<Rightarrow> nat \<Rightarrow> db \<Rightarrow> rate_entry_input list \<Rightarrow> performer_rate list
     \<Rightarrow> error + performer_rate list \<times> db" where
  "persist_rates p uuid4 k d [] persisted = Inr (persisted, d)"
| "persist_rates p uuid4 k d (entry # entries) persisted =
     (case persist_rate_entry p (uuid4 k) d entry of
        Inl e \<Rightarrow> Inl e
      | Inr (target, d1) \<Rightarrow> persist_rates p uuid4 (k + 1) d1 entries (persisted @ [target]))"

definition bulk_upsert_rates ::
  "settings \<Rightarrow> (nat \<Rightarrow> uuid) \<Rightarrow> request_user_context \<Rightarrow> session \<Rightarrow> uuid \<Rightarrow> rate_entry_input list
     \<Rightarrow> (error + performer_rate list) \<times> session" where
  "bulk_upsert_rates st uuid4 ctx s pid entries =
     (case ensure_project_access (pending s) ctx pid EDIT_ROLES of
        Inl e \<Rightarrow> (Inl e, s)
      | Inr p \<Rightarrow>
          (case normalize_rate_entries p
                  (list_performers_for_business_unit (pending s) (project_business_unit_id p))
                  entries [] [] of
             Inl e \<Rightarrow> (Inl e, s)
           | Inr normalized \<Rightarrow>
               (case persist_rates p uuid4 0 (pending s) normalized [] of
                  Inl e \<Rightarrow> savepoint_failure ''Rate upsert violated database constraints.'' s e
                | Inr (persisted, d1) \<Rightarrow>
                    (case refresh_project_snapshots st d1 (project_id p) of
                       Inl e \<Rightarrow>
                         savepoint_failure ''Rate upsert violated database constraints.'' s e
                     | Inr (snaps, d2) \<Rightarrow> (Inr persisted, commit (s \<lparr> pending := d2 \<rparr>))))))"

section \<open>Specification vocabulary for costs\<close>

text \<open>
  The cost formulas in the words of the specification, in exact arithmetic: the per-day
  value of a rate, and \<open>cost(personDays, perDayValue) = round2(personDays * perDayValue)\<close>.
  A value fits a column \<open>NUMERIC(p, 2)\<close> when it has at most two decimals and fewer than
  \<open>p - 2\<close> digits before the point; \<open>column_values\<close> says that the person days of the
  effort entries and the values of the rates are such values of their columns,
  \<open>NUMERIC(10, 2)\<close> and \<open>NUMERIC(12, 2)\<close>.
\<close>

definition per_day_value :: "int \<Rightarrow> performer_rate \<Rightarrow> decimal" where
  "per_day_value working_days r =
     (case rate_unit r of
        DAY \<Rightarrow> q2 (rate_value r)
      | FTE_MONTH \<Rightarrow> q2 (rate_value r / of_int working_days))"





text \<open>
  A monthly rate whose value has 31 decimals, as a rate payload may carry it until the row
  is stored.
\<close>

definition long_rate :: performer_rate where
  "long_rate =
     \<lparr> rate_id = ''r9'', rate_business_unit_id = ''bu'', rate_performer_id = ''a'',
       rate_project_id = None, rate_unit = FTE_MONTH,
       rate_value = 2999999999999999999999999999999 / 10 ^ 31,
       effective_from_month = Date 2026 1 1, effective_to_month = None \<rparr>"

section \<open>Verified properties\<close>

subsection \<open>Rate resolution\<close>


lemma group_rates_by_performer_get_gen:
  "(case foldl (\<lambda>m r. m(rate_performer_id r \<mapsto>
                     (case m (rate_performer_id r) of None \<Rightarrow> [] | Some xs \<Rightarrow> xs) @ [r])) m0 rs perf
     of None \<Rightarrow> [] | Some xs \<Rightarrow> xs)
   = (case m0 perf of None \<Rightarrow> [] | Some xs \<Rightarrow> xs) @ filter (\<lambda>r. rate_performer_id r = perf) rs"
  by (induction rs arbitrary: m0) auto

lemma group_rates_by_performer_get:
  "(case group_rates_by_performer rs perf of None \<Rightarrow> [] | Some xs \<Rightarrow> xs)
   = filter (\<lambda>r. rate_performer_id r = perf) rs"
  unfolding group_rates_by_performer_def
  by (simp add: group_rates_by_performer_get_gen)

lemma sorted_last_max:
  "sorted (map k ys) \<Longrightarrow> x \<in> set ys \<Longrightarrow> k x \<le> k (last ys)"
  by (induction ys) (auto split: if_splits)

lemma sort_reverse_hd:
  assumes "xs \<noteq> []"
  shows "hd (sort_reverse k xs) \<in> set xs"
    and "\<And>x. x \<in> set xs \<Longrightarrow> k x \<le> k (hd (sort_reverse k xs))"
proof -
  let ?ys = "sort_key k (rev xs)"
  have ne: "?ys \<noteq> []" using assms by (metis set_empty set_rev set_sort)
  have hd: "hd (sort_reverse k xs) = last ?ys"
    unfolding sort_reverse_def using ne by (simp add: hd_rev)
  show "hd (sort_reverse k xs) \<in> set xs"
    using hd ne last_in_set[OF ne] by simp
  fix x assume "x \<in> set xs"
  then have "x \<in> set ?ys" by simp
  then show "k x \<le> k (hd (sort_reverse k xs))"
    using sorted_last_max[of k ?ys x] hd by simp
qed

lemma valid_month_start_less_max:
  "valid_date d \<Longrightarrow> day d = 1 \<Longrightarrow> d < date_max"
  by (auto simp: valid_date_def date_max_def less_date_def MAXYEAR_def)

lemma covers_month_iff: "covers_month r m \<longleftrightarrow> range_covers r m"
  by (auto simp: covers_month_def range_covers_def split: option.splits)

lemma key_le_ranks:
  assumes "rate_sort_key r' \<le> rate_sort_key r"
    and "case effective_to_month r of None \<Rightarrow> True | Some d \<Rightarrow> valid_date d \<and> day d = 1"
    and "case effective_to_month r' of None \<Rightarrow> True | Some d \<Rightarrow> valid_date d \<and> day d = 1"
  shows "ranks_at_most r' r"
proof -
  have lt: "\<And>d. effective_to_month r = Some d \<Longrightarrow> d < date_max"
    using assms(2) by (auto intro: valid_month_start_less_max)
  have lt': "\<And>d. effective_to_month r' = Some d \<Longrightarrow> d < date_max"
    using assms(3) by (auto intro: valid_month_start_less_max)
  show ?thesis
  proof (cases "effective_to_month r"; cases "effective_to_month r'")
    fix d d' assume "effective_to_month r = Some d" "effective_to_month r' = Some d'"
    then show ?thesis using assms(1)
      by (auto simp: rate_sort_key_def ranks_at_most_def end_earlier_def)
  next
    fix d' assume "effective_to_month r = None" "effective_to_month r' = Some d'"
    then show ?thesis using assms(1) lt'[of d']
      by (auto simp: rate_sort_key_def ranks_at_most_def end_earlier_def)
  next
    fix d assume "effective_to_month r = Some d" "effective_to_month r' = None"
    then show ?thesis using assms(1) lt[of d]
      by (auto simp: rate_sort_key_def ranks_at_most_def end_earlier_def)
  next
    assume "effective_to_month r = None" "effective_to_month r' = None"
    then show ?thesis using assms(1)
      by (auto simp: rate_sort_key_def ranks_at_most_def end_earlier_def)
  qed
qed

lemma best_of_filter:
  assumes ne: "filter P xs \<noteq> []" and ms: "month_start_ends xs"
  shows "hd (sort_reverse rate_sort_key (filter P xs)) \<in> set (filter P xs) \<and>
         (\<forall>r' \<in> set (filter P xs). ranks_at_most r' (hd (sort_reverse rate_sort_key (filter P xs))))"
proof -
  let ?b = "hd (sort_reverse rate_sort_key (filter P xs))"
  have mem: "?b \<in> set (filter P xs)" by (rule sort_reverse_hd(1)[OF ne])
  have inv: "\<And>r. r \<in> set (filter P xs) \<Longrightarrow>
      (case effective_to_month r of None \<Rightarrow> True | Some d \<Rightarrow> valid_date d \<and> day d = 1)"
    using ms by (auto simp: month_start_ends_def list_all_iff)
  have "ranks_at_most r' ?b" if "r' \<in> set (filter P xs)" for r'
    using key_le_ranks[OF sort_reverse_hd(2)[OF ne that] inv[OF mem] inv[OF that]] .
  with mem show ?thesis by blast
qed

text \<open>
  Claim C2. For every performer, project and month, resolution first restricts to the
  performer's project-specific rates covering the month; if there are any, the result is
  one of them that no other outranks (latest first month, then latest last month with a
  missing one as infinite, then the identifier); only otherwise the same selection is made
  among the performer's default rates (no project); with no covering rate in either scope
  the result is none.
\<close>

theorem resolve_effective_rate_selection:
  assumes "month_start_ends rs"
  shows "(if covering_rates rs perf (Some pid) m \<noteq> []
          then \<exists>r \<in> set (covering_rates rs perf (Some pid) m).
                 resolve_effective_rate (group_rates_by_performer rs) perf pid m = Some r \<and>
                 (\<forall>r' \<in> set (covering_rates rs perf (Some pid) m). ranks_at_most r' r)
          else if covering_rates rs perf None m \<noteq> []
          then \<exists>r \<in> set (covering_rates rs perf None m).
                 resolve_effective_rate (group_rates_by_performer rs) perf pid m = Some r \<and>
                 (\<forall>r' \<in> set (covering_rates rs perf None m). ranks_at_most r' r)
          else resolve_effective_rate (group_rates_by_performer rs) perf pid m = None)"
proof -
  let ?cand = "filter (\<lambda>r. rate_performer_id r = perf) rs"
  have ms: "month_start_ends ?cand"
    using assms by (auto simp: month_start_ends_def list_all_iff)
  have f: "filter (\<lambda>row. rate_project_id row = scope \<and> covers_month row m) ?cand
           = covering_rates rs perf scope m" for scope
    by (auto simp: covering_rates_def covers_month_iff intro: filter_cong)
  have res: "resolve_effective_rate (group_rates_by_performer rs) perf pid m =
      (if covering_rates rs perf (Some pid) m \<noteq> []
       then Some (hd (sort_reverse rate_sort_key (covering_rates rs perf (Some pid) m)))
       else if covering_rates rs perf None m = [] then None
       else Some (hd (sort_reverse rate_sort_key (covering_rates rs perf None m))))"
    unfolding resolve_effective_rate_def group_rates_by_performer_get Let_def f
    by simp
  have best: "covering_rates rs perf scope m \<noteq> [] \<Longrightarrow>
      hd (sort_reverse rate_sort_key (covering_rates rs perf scope m)) \<in> set (covering_rates rs perf scope m) \<and>
      (\<forall>r' \<in> set (covering_rates rs perf scope m).
          ranks_at_most r' (hd (sort_reverse rate_sort_key (covering_rates rs perf scope m))))" for scope
    using best_of_filter[OF _ ms, of "\<lambda>row. rate_project_id row = scope \<and> covers_month row m"]
    unfolding f by simp
  show ?thesis
    unfolding res using best[of "Some pid"] best[of None] by auto
qed


theorem resolve_effective_rate_selection_witness:
  "month_start_ends
     [\<lparr> rate_id = ''a1'', rate_business_unit_id = ''bu'', rate_performer_id = ''alice'',
        rate_project_id = Some ''p1'', rate_unit = DAY, rate_value = 100,
        effective_from_month = Date 2026 1 1, effective_to_month = Some (Date 2026 2 1) \<rparr>,
      \<lparr> rate_id = ''a2'', rate_business_unit_id = ''bu'', rate_performer_id = ''alice'',
        rate_project_id = Some ''p1'', rate_unit = DAY, rate_value = 200,
        effective_from_month = Date 2026 2 1, effective_to_month = None \<rparr>,
      \<lparr> rate_id = ''a3'', rate_business_unit_id = ''bu'', rate_performer_id = ''alice'',
        rate_project_id = None, rate_unit = DAY, rate_value = 50,
        effective_from_month = Date 2026 1 1, effective_to_month = None \<rparr>] \<and>
   resolve_effective_rate (group_rates_by_performer
     [\<lparr> rate_id = ''a1'', rate_business_unit_id = ''bu'', rate_performer_id = ''alice'',
        rate_project_id = Some ''p1'', rate_unit = DAY, rate_value = 100,
        effective_from_month = Date 2026 1 1, effective_to_month = Some (Date 2026 2 1) \<rparr>,
      \<lparr> rate_id = ''a2'', rate_business_unit_id = ''bu'', rate_performer_id = ''alice'',
        rate_project_id = Some ''p1'', rate_unit = DAY, rate_value = 200,
        effective_from_month = Date 2026 2 1, effective_to_month = None \<rparr>,
      \<lparr> rate_id = ''a3'', rate_business_unit_id = ''bu'', rate_performer_id = ''alice'',
        rate_project_id = None, rate_unit = DAY, rate_value = 50,
        effective_from_month = Date 2026 1 1, effective_to_month = None \<rparr>])
     ''alice'' ''p1'' (Date 2026 2 1)
   = Some \<lparr> rate_id = ''a2'', rate_business_unit_id = ''bu'', rate_performer_id = ''alice'',
        rate_project_id = Some ''p1'', rate_unit = DAY, rate_value = 200,
        effective_from_month = Date 2026 2 1, effective_to_month = None \<rparr>"
  (is "month_start_ends ?rs \<and> ?res = Some ?r2")
proof -
  have h: "month_start_ends ?rs"
    by (simp add: month_start_ends_def valid_date_def MAXYEAR_def days_in_month_def)
  have cov: "covering_rates ?rs ''alice'' (Some ''p1'') (Date 2026 2 1) = [hd ?rs, ?r2]"
    by (simp add: covering_rates_def range_covers_def less_eq_date_def)
  have nb: "\<not> ranks_at_most ?r2 (hd ?rs)"
    by (simp add: ranks_at_most_def less_date_def)
  from resolve_effective_rate_selection[OF h, of "''alice''" "''p1''" "Date 2026 2 1"]
  have "?res = Some ?r2"
    unfolding cov using nb by auto
  with h show ?thesis by simp
qed

subsection \<open>Rounding\<close>

lemma round_half_even_of_int: "round_half_even (of_int n) = n"
  by (simp add: round_half_even_def)

lemma q2_idem: "q2 (q2 x) = q2 x"
  by (simp add: q2_def round_half_even_of_int)

lemma q2_zero: "q2 0 = 0"
  by (simp add: q2_def round_half_even_def)

subsection \<open>The month sequence\<close>

lemma index_div_mod:
  fixes y m :: nat
  assumes "Suc 0 \<le> m" "m \<le> 12"
  shows "(y * 12 + m - Suc 0) div 12 = y" and "Suc ((y * 12 + m - Suc 0) mod 12) = m"
proof -
  obtain k where k: "m = Suc k" "k < 12" using assms by (cases m) auto
  show "(y * 12 + m - Suc 0) div 12 = y" using k by simp
  show "Suc ((y * 12 + m - Suc 0) mod 12) = m" using k by simp
qed

lemma nth_month_index: "month_start d \<Longrightarrow> nth_month (month_index d) = d"
  by (cases d) (simp add: nth_month_def month_index_def month_start_def valid_date_def index_div_mod)

lemma month_start_le_iff:
  "month_start a \<Longrightarrow> month_start b \<Longrightarrow> a \<le> b \<longleftrightarrow> month_index a \<le> month_index b"
  by (cases a; cases b)
     (auto simp: month_index_def month_start_def valid_date_def less_eq_date_def)

lemma py_date_Inr: "py_date y m d = Inr x \<Longrightarrow> x = Date y m d \<and> valid_date x"
  by (simp add: py_date_def split: if_splits)

lemma month_successor:
  assumes "month_start c"
    and "(if month c = 12 then py_date (year c + 1) 1 1 else py_date (year c) (month c + 1) 1) = Inr nxt"
  shows "month_start nxt" and "month_index nxt = month_index c + 1"
proof -
  have nxt: "nxt = (if month c = 12 then Date (year c + 1) 1 1 else Date (year c) (month c + 1) 1)"
    and v: "valid_date nxt"
    using assms(2) py_date_Inr by (auto split: if_splits)
  show "month_start nxt" using v nxt by (simp add: month_start_def split: if_splits)
  show "month_index nxt = month_index c + 1"
    using nxt by (simp add: month_index_def split: if_splits)
qed

lemma month_successor_exists:
  assumes "month_start c" and "month_index c < month_index (Date 9999 12 1)"
  shows "\<exists>nxt. (if month c = 12 then py_date (year c + 1) 1 1 else py_date (year c) (month c + 1) 1) = Inr nxt"
  using assms
  by (cases c)
     (auto simp: month_start_def py_date_def valid_date_def month_index_def days_in_month_def
       MAXYEAR_def)

lemma month_sequence_loop_result:
  "month_start e \<Longrightarrow> month_start c \<Longrightarrow> month_sequence_loop c e acc = Inr r \<Longrightarrow>
   r = acc @ map nth_month [month_index c ..< month_index e + 1]"
proof (induction c e acc rule: month_sequence_loop.induct)
  case (1 current end_d months)
  note me = "1.prems"(1) and ms = "1.prems"(2) and res = "1.prems"(3)
  let ?step = "if month current = 12 then py_date (year current + 1) 1 1
               else py_date (year current) (month current + 1) 1"
  show ?case
  proof (cases "current \<le> end_d")
    case False
    then have "month_index end_d < month_index current"
      using month_start_le_iff[OF ms me] by simp
    moreover have "month_sequence_loop current end_d months = Inr months"
      by (subst month_sequence_loop.simps) (simp only: False if_False)
    then have "r = months" using res by simp
    ultimately show ?thesis by simp
  next
    case True
    then have le: "month_index current \<le> month_index end_d"
      using month_start_le_iff[OF ms me] by simp
    from res True obtain nxt where
      st: "?step = Inr nxt" and rec: "month_sequence_loop nxt end_d (months @ [current]) = Inr r"
      by (subst (asm) month_sequence_loop.simps) (simp only: if_True split: sum.splits, auto)
    have r: "r = (months @ [current]) @ map nth_month [month_index nxt ..< month_index end_d + 1]"
      using "1.IH"[OF True st me month_successor(1)[OF ms st] rec] .
    have "[month_index current ..< month_index end_d + 1] =
          month_index current # [month_index nxt ..< month_index end_d + 1]"
      using le month_successor(2)[OF ms st] by (simp add: upt_conv_Cons)
    then show ?thesis using r nth_month_index[OF ms] by simp
  qed
qed

lemma month_sequence_loop_total:
  "month_start e \<Longrightarrow> month_index e < month_index (Date 9999 12 1) \<Longrightarrow> month_start c \<Longrightarrow>
   \<exists>r. month_sequence_loop c e acc = Inr r"
proof (induction c e acc rule: month_sequence_loop.induct)
  case (1 current end_d months)
  note me = "1.prems"(1) and bound = "1.prems"(2) and ms = "1.prems"(3)
  let ?step = "if month current = 12 then py_date (year current + 1) 1 1
               else py_date (year current) (month current + 1) 1"
  show ?case
  proof (cases "current \<le> end_d")
    case False
    have "month_sequence_loop current end_d months = Inr months"
      by (subst month_sequence_loop.simps) (simp only: False if_False)
    then show ?thesis by simp
  next
    case True
    then have "month_index current < month_index (Date 9999 12 1)"
      using month_start_le_iff[OF ms me] bound by simp
    from month_successor_exists[OF ms this] obtain nxt where st: "?step = Inr nxt" by blast
    from "1.IH"[OF True st me bound month_successor(1)[OF ms st]]
    obtain r where r: "month_sequence_loop nxt end_d (months @ [current]) = Inr r" by blast
    have "month_sequence_loop current end_d months =
          month_sequence_loop nxt end_d (months @ [current])"
      by (subst month_sequence_loop.simps) (simp only: True st if_True sum.case)
    with r show ?thesis by simp
  qed
qed

lemma first_of_month:
  assumes "valid_date d"
  shows "py_date (year d) (month d) 1 = Inr (Date (year d) (month d) 1)"
    and "month_start (Date (year d) (month d) 1)"
    and "month_index (Date (year d) (month d) 1) = month_index d"
  using assms
  by (auto simp: py_date_def valid_date_def month_start_def month_index_def days_in_month_def)

lemma month_sequence_result:
  assumes "valid_date s" "valid_date e" "month_sequence s e = Inr months"
  shows "months = calendar_months s e"
proof -
  from assms(3) have "month_sequence_loop (Date (year s) (month s) 1) (Date (year e) (month e) 1) [] = Inr months"
    unfolding month_sequence_def first_of_month(1)[OF assms(1)] first_of_month(1)[OF assms(2)]
    by simp
  from month_sequence_loop_result[OF first_of_month(2)[OF assms(2)] first_of_month(2)[OF assms(1)] this]
  show ?thesis
    unfolding calendar_months_def first_of_month(3)[OF assms(1)] first_of_month(3)[OF assms(2)]
    by simp
qed

lemma month_sequence_total:
  assumes "valid_date s" "valid_date e" "month_index e < month_index (Date 9999 12 1)"
  shows "month_sequence s e = Inr (calendar_months s e)"
proof -
  have b: "month_index (Date (year e) (month e) 1) < month_index (Date 9999 12 1)"
    using assms(3) unfolding first_of_month(3)[OF assms(2)] .
  from month_sequence_loop_total[OF first_of_month(2)[OF assms(2)] b first_of_month(2)[OF assms(1)], of "[]"]
  obtain r where "month_sequence s e = Inr r"
    unfolding month_sequence_def first_of_month(1)[OF assms(1)] first_of_month(1)[OF assms(2)]
    by auto
  with month_sequence_result[OF assms(1,2)] show ?thesis by simp
qed

lemma days_in_month_pos: "Suc 0 \<le> days_in_month y m"
  by (simp add: days_in_month_def)

lemma nth_month_props:
  assumes "13 \<le> k" "k \<le> 9999 * 12 + 12"
  shows "month_start (nth_month k)" and "month_index (nth_month k) = k"
proof -
  have d: "1 \<le> (k - 1) div 12" "(k - 1) div 12 \<le> 9999"
    using assms by (simp_all add: Suc_le_eq less_eq_div_iff_mult_less_eq div_le_mono)
  have m: "(k - 1) mod 12 \<le> 11"
    using mod_less_divisor[of 12 "k - 1"] by linarith
  show "month_start (nth_month k)"
    using d m by (simp add: nth_month_def month_start_def valid_date_def MAXYEAR_def days_in_month_pos)
  show "month_index (nth_month k) = k"
    using assms by (simp add: nth_month_def month_index_def)
qed

subsection \<open>The rollup loop and the refresh loop\<close>

lemma chained_nth:
  "chained cum val prev rs \<Longrightarrow> i < length rs \<Longrightarrow>
   cum (rs ! i) = q2 ((if i = 0 then prev else cum (rs ! (i - 1))) + val (rs ! i))"
proof (induction rs arbitrary: prev i)
  case Nil
  then show ?case by simp
next
  case (Cons r rs)
  show ?case
  proof (cases i)
    case 0
    with Cons.prems show ?thesis by simp
  next
    case (Suc j)
    with Cons.prems have "j < length rs" and ch: "chained cum val (cum r) rs" by auto
    from Cons.IH[OF ch \<open>j < length rs\<close>] Suc show ?thesis
      by (cases j) simp_all
  qed
qed

lemma rollup_loop_acc:
  "rollup_loop bm invs revs months cp ca cr out =
   out @ rollup_loop bm invs revs months cp ca cr []"
proof (induction months arbitrary: cp ca cr out)
  case Nil
  then show ?case by simp
next
  case (Cons m ms)
  show ?case
    by (simp add: Let_def Cons.IH[of _ _ _ "out @ _"] Cons.IH[of _ _ _ "[_]"])
qed

lemma rollup_loop_Cons:
  "rollup_loop bm invs revs (m # ms) cp ca cr [] =
   month_row bm invs revs m cp ca cr #
   rollup_loop bm invs revs ms
     (row_cumulative_planned_cost (month_row bm invs revs m cp ca cr))
     (row_cumulative_actual_cost (month_row bm invs revs m cp ca cr))
     (row_cumulative_revenue (month_row bm invs revs m cp ca cr)) []"
  by (simp add: Let_def rollup_loop_acc[of _ _ _ _ _ _ _ "[_]"])

lemma rollup_loop_months:
  "map row_month_start (rollup_loop bm invs revs months cp ca cr []) = months"
  by (induction months arbitrary: cp ca cr)
     (simp_all add: rollup_loop_Cons month_row_def Let_def del: rollup_loop.simps(2))

lemma rollup_loop_chained:
  "chained row_cumulative_planned_cost row_planned_cost cp (rollup_loop bm invs revs months cp ca cr [])"
  "chained row_cumulative_actual_cost row_actual_cost ca (rollup_loop bm invs revs months cp ca cr [])"
  "chained row_cumulative_revenue row_revenue_amount cr (rollup_loop bm invs revs months cp ca cr [])"
  by (induction months arbitrary: cp ca cr;
      simp add: rollup_loop_Cons month_row_def Let_def del: rollup_loop.simps(2))+

lemma rollup_loop_rounded:
  "r \<in> set (rollup_loop bm invs revs months cp ca cr []) \<Longrightarrow>
   q2 (row_planned_cost r) = row_planned_cost r \<and> q2 (row_actual_cost r) = row_actual_cost r \<and>
   q2 (row_revenue_amount r) = row_revenue_amount r"
  by (induction months arbitrary: cp ca cr)
     (auto simp: rollup_loop_Cons month_row_def Let_def q2_idem simp del: rollup_loop.simps(2))

lemma find_SomeD: "find P xs = Some x \<Longrightarrow> P x \<and> x \<in> set xs"
  by (induction xs) (auto split: if_splits)

lemma upsert_snapshot_fst: "fst (upsert_snapshot d v) = v"
proof (cases "get_snapshot d (snapshot_project_id v) (snapshot_month_start v)")
  case None
  then show ?thesis by (simp add: upsert_snapshot_def)
next
  case (Some existing)
  then have "snapshot_project_id existing = snapshot_project_id v"
    and "snapshot_month_start existing = snapshot_month_start v"
    by (auto simp: get_snapshot_def dest: find_SomeD)
  then have "overwrite_snapshot v existing = v"
    by (simp add: overwrite_snapshot_def)
  with Some show ?thesis by (simp add: upsert_snapshot_def)
qed

lemma refresh_loop_eq:
  "refresh_loop pid totals revs invs months cp ca cr acc d =
   (acc @ month_snapshots pid totals revs invs months cp ca cr,
    store_snapshots d (month_snapshots pid totals revs invs months cp ca cr))"
proof (induction months arbitrary: cp ca cr acc d)
  case Nil
  then show ?case by (simp add: store_snapshots_def)
next
  case (Cons m ms)
  obtain s d' where u: "upsert_snapshot d (month_snapshot pid totals revs invs m cp ca cr) = (s, d')"
    by (cases "upsert_snapshot d (month_snapshot pid totals revs invs m cp ca cr)")
  then have s: "s = month_snapshot pid totals revs invs m cp ca cr"
    using upsert_snapshot_fst[of d "month_snapshot pid totals revs invs m cp ca cr"] by simp
  show ?case
    by (simp add: Let_def u Cons.IH s store_snapshots_def)
qed

lemma month_snapshots_months:
  "map snapshot_month_start (month_snapshots pid totals revs invs months cp ca cr) = months"
  by (induction months arbitrary: cp ca cr) (simp_all add: month_snapshot_def Let_def)

lemma month_snapshots_project:
  "v \<in> set (month_snapshots pid totals revs invs months cp ca cr) \<Longrightarrow> snapshot_project_id v = pid"
  by (induction months arbitrary: cp ca cr) (auto simp: month_snapshot_def Let_def)

lemma month_snapshots_chained:
  "chained snap_cumulative_planned_cost snap_planned_cost cp (month_snapshots pid totals revs invs months cp ca cr)"
  "chained snap_cumulative_actual_cost snap_actual_cost ca (month_snapshots pid totals revs invs months cp ca cr)"
  "chained snap_cumulative_revenue snap_revenue_amount cr (month_snapshots pid totals revs invs months cp ca cr)"
  by (induction months arbitrary: cp ca cr; simp add: month_snapshot_def Let_def)+

lemma month_snapshots_rounded:
  "v \<in> set (month_snapshots pid totals revs invs months cp ca cr) \<Longrightarrow>
   q2 (snap_planned_cost v) = snap_planned_cost v \<and> q2 (snap_actual_cost v) = snap_actual_cost v \<and>
   q2 (snap_revenue_amount v) = snap_revenue_amount v"
  by (induction months arbitrary: cp ca cr) (auto simp: month_snapshot_def Let_def q2_idem)

text \<open>What \<open>refresh_project_snapshots\<close> returns when it returns.\<close>

lemma refresh_project_snapshots_Inr:
  assumes "refresh_project_snapshots st d pid = Inr (snaps, d')"
  obtains p months totals where
    "get_project d pid = Some p"
    "month_sequence (start_month p) (end_month p) = Inr months"
    "totals = foldl (accumulate_entry st (project_rates_by_performer d p) p) (init_buckets months)
                (list_effort_entries d (project_id p) (start_month p) (end_month p))"
    "snaps = month_snapshots (project_id p) totals (aggregate_revenues_by_month d (project_id p))
               (aggregate_invoices_by_month d (project_id p)) months ZERO ZERO ZERO"
    "d' = delete_snapshots_outside_range (store_snapshots d snaps) (project_id p)
            (start_month p) (end_month p)"
  using assms
  by (auto simp: refresh_project_snapshots_def Let_def refresh_loop_eq
      split: option.splits sum.splits)

subsection \<open>The scenario, evaluated\<close>

lemma scenario_rollups:
  "project_monthly_rollups default_settings scenario_db scenario_project
     (Date 2026 1 1) (Date 2026 3 1) = Inr scenario_rows"
  by code_simp

lemma scenario_refresh:
  "refresh_project_snapshots default_settings scenario_db ''p1'' =
   Inr (scenario_snapshots, scenario_db \<lparr> snapshots := scenario_snapshots \<rparr>)"
  by code_simp

subsection \<open>Cumulative fields\<close>

text \<open>
  Claim C1. In the rows of a rollup and in the snapshot rows of a refresh, which follow the
  month sequence of the range from its first month, each of the three cumulative fields
  equals the two-decimal rounding of the previous row's cumulative value (zero before the
  first row) plus the row's own monthly value, and that monthly value is itself already
  rounded to two decimals.
\<close>

theorem cumulative_fields_round_after_each_addition:
  "(project_monthly_rollups st d p from_month to_month = Inr rows \<longrightarrow>
      month_sequence from_month to_month = Inr (map row_month_start rows) \<and>
      (\<forall>i < length rows.
         row_cumulative_planned_cost (rows ! i) =
           q2 ((if i = 0 then ZERO else row_cumulative_planned_cost (rows ! (i - 1)))
               + row_planned_cost (rows ! i)) \<and>
         row_cumulative_actual_cost (rows ! i) =
           q2 ((if i = 0 then ZERO else row_cumulative_actual_cost (rows ! (i - 1)))
               + row_actual_cost (rows ! i)) \<and>
         row_cumulative_revenue (rows ! i) =
           q2 ((if i = 0 then ZERO else row_cumulative_revenue (rows ! (i - 1)))
               + row_revenue_amount (rows ! i)) \<and>
         q2 (row_planned_cost (rows ! i)) = row_planned_cost (rows ! i) \<and>
         q2 (row_actual_cost (rows ! i)) = row_actual_cost (rows ! i) \<and>
         q2 (row_revenue_amount (rows ! i)) = row_revenue_amount (rows ! i))) \<and>
   (refresh_project_snapshots st d pid = Inr (snaps, d') \<longrightarrow>
      (\<exists>p. get_project d pid = Some p \<and>
           month_sequence (start_month p) (end_month p) = Inr (map snapshot_month_start snaps)) \<and>
      (\<forall>i < length snaps.
         snap_cumulative_planned_cost (snaps ! i) =
           q2 ((if i = 0 then ZERO else snap_cumulative_planned_cost (snaps ! (i - 1)))
               + snap_planned_cost (snaps ! i)) \<and>
         snap_cumulative_actual_cost (snaps ! i) =
           q2 ((if i = 0 then ZERO else snap_cumulative_actual_cost (snaps ! (i - 1)))
               + snap_actual_cost (snaps ! i)) \<and>
         snap_cumulative_revenue (snaps ! i) =
           q2 ((if i = 0 then ZERO else snap_cumulative_revenue (snaps ! (i - 1)))
               + snap_revenue_amount (snaps ! i)) \<and>
         q2 (snap_planned_cost (snaps ! i)) = snap_planned_cost (snaps ! i) \<and>
         q2 (snap_actual_cost (snaps ! i)) = snap_actual_cost (snaps ! i) \<and>
         q2 (snap_revenue_amount (snaps ! i)) = snap_revenue_amount (snaps ! i)))"
proof (intro conjI impI)
  assume a: "project_monthly_rollups st d p from_month to_month = Inr rows"
  then obtain months bm invs revs where
    ms: "month_sequence from_month to_month = Inr months" and
    rows: "rows = rollup_loop bm invs revs months ZERO ZERO ZERO []"
    by (auto simp: project_monthly_rollups_def Let_def split: sum.splits)
  show "month_sequence from_month to_month = Inr (map row_month_start rows)"
    using ms rows by (simp add: rollup_loop_months)
  show "\<forall>i < length rows.
         row_cumulative_planned_cost (rows ! i) =
           q2 ((if i = 0 then ZERO else row_cumulative_planned_cost (rows ! (i - 1)))
               + row_planned_cost (rows ! i)) \<and>
         row_cumulative_actual_cost (rows ! i) =
           q2 ((if i = 0 then ZERO else row_cumulative_actual_cost (rows ! (i - 1)))
               + row_actual_cost (rows ! i)) \<and>
         row_cumulative_revenue (rows ! i) =
           q2 ((if i = 0 then ZERO else row_cumulative_revenue (rows ! (i - 1)))
               + row_revenue_amount (rows ! i)) \<and>
         q2 (row_planned_cost (rows ! i)) = row_planned_cost (rows ! i) \<and>
         q2 (row_actual_cost (rows ! i)) = row_actual_cost (rows ! i) \<and>
         q2 (row_revenue_amount (rows ! i)) = row_revenue_amount (rows ! i)"
  proof (intro allI impI)
    fix i assume i: "i < length rows"
    then have mem: "rows ! i \<in> set (rollup_loop bm invs revs months ZERO ZERO ZERO [])"
      using rows by simp
    show "row_cumulative_planned_cost (rows ! i) =
           q2 ((if i = 0 then ZERO else row_cumulative_planned_cost (rows ! (i - 1)))
               + row_planned_cost (rows ! i)) \<and>
         row_cumulative_actual_cost (rows ! i) =
           q2 ((if i = 0 then ZERO else row_cumulative_actual_cost (rows ! (i - 1)))
               + row_actual_cost (rows ! i)) \<and>
         row_cumulative_revenue (rows ! i) =
           q2 ((if i = 0 then ZERO else row_cumulative_revenue (rows ! (i - 1)))
               + row_revenue_amount (rows ! i)) \<and>
         q2 (row_planned_cost (rows ! i)) = row_planned_cost (rows ! i) \<and>
         q2 (row_actual_cost (rows ! i)) = row_actual_cost (rows ! i) \<and>
         q2 (row_revenue_amount (rows ! i)) = row_revenue_amount (rows ! i)"
      using chained_nth[OF rollup_loop_chained(1)[of ZERO bm invs revs months ZERO ZERO] i[unfolded rows]]
        chained_nth[OF rollup_loop_chained(2)[of ZERO bm invs revs months ZERO ZERO] i[unfolded rows]]
        chained_nth[OF rollup_loop_chained(3)[of ZERO bm invs revs months ZERO ZERO] i[unfolded rows]]
        rollup_loop_rounded[OF mem]
      unfolding rows by blast
  qed
next
  assume a: "refresh_project_snapshots st d pid = Inr (snaps, d')"
  from refresh_project_snapshots_Inr[OF a] obtain p months totals where
    gp: "get_project d pid = Some p" and
    ms: "month_sequence (start_month p) (end_month p) = Inr months" and
    snaps: "snaps = month_snapshots (project_id p) totals (aggregate_revenues_by_month d (project_id p))
               (aggregate_invoices_by_month d (project_id p)) months ZERO ZERO ZERO"
    by metis
  show "\<exists>p. get_project d pid = Some p \<and>
           month_sequence (start_month p) (end_month p) = Inr (map snapshot_month_start snaps)"
    using gp ms snaps by (auto simp: month_snapshots_months)
  show "\<forall>i < length snaps.
         snap_cumulative_planned_cost (snaps ! i) =
           q2 ((if i = 0 then ZERO else snap_cumulative_planned_cost (snaps ! (i - 1)))
               + snap_planned_cost (snaps ! i)) \<and>
         snap_cumulative_actual_cost (snaps ! i) =
           q2 ((if i = 0 then ZERO else snap_cumulative_actual_cost (snaps ! (i - 1)))
               + snap_actual_cost (snaps ! i)) \<and>
         snap_cumulative_revenue (snaps ! i) =
           q2 ((if i = 0 then ZERO else snap_cumulative_revenue (snaps ! (i - 1)))
               + snap_revenue_amount (snaps ! i)) \<and>
         q2 (snap_planned_cost (snaps ! i)) = snap_planned_cost (snaps ! i) \<and>
         q2 (snap_actual_cost (snaps ! i)) = snap_actual_cost (snaps ! i) \<and>
         q2 (snap_revenue_amount (snaps ! i)) = snap_revenue_amount (snaps ! i)"
  proof (intro allI impI)
    fix i assume i: "i < length snaps"
    then have mem: "snaps ! i \<in> set snaps" by simp
    show "snap_cumulative_planned_cost (snaps ! i) =
           q2 ((if i = 0 then ZERO else snap_cumulative_planned_cost (snaps ! (i - 1)))
               + snap_planned_cost (snaps ! i)) \<and>
         snap_cumulative_actual_cost (snaps ! i) =
           q2 ((if i = 0 then ZERO else snap_cumulative_actual_cost (snaps ! (i - 1)))
               + snap_actual_cost (snaps ! i)) \<and>
         snap_cumulative_revenue (snaps ! i) =
           q2 ((if i = 0 then ZERO else snap_cumulative_revenue (snaps ! (i - 1)))
               + snap_revenue_amount (snaps ! i)) \<and>
         q2 (snap_planned_cost (snaps ! i)) = snap_planned_cost (snaps ! i) \<and>
         q2 (snap_actual_cost (snaps ! i)) = snap_actual_cost (snaps ! i) \<and>
         q2 (snap_revenue_amount (snaps ! i)) = snap_revenue_amount (snaps ! i)"
      using chained_nth[OF month_snapshots_chained(1) i[unfolded snaps]]
        chained_nth[OF month_snapshots_chained(2) i[unfolded snaps]]
        chained_nth[OF month_snapshots_chained(3) i[unfolded snaps]]
        month_snapshots_rounded[OF mem[unfolded snaps]]
      unfolding snaps by blast
  qed
qed

theorem cumulative_fields_round_after_each_addition_witness:
  "project_monthly_rollups default_settings scenario_db scenario_project
     (Date 2026 1 1) (Date 2026 3 1) = Inr scenario_rows \<and>
   refresh_project_snapshots default_settings scenario_db ''p1'' =
     Inr (scenario_snapshots, scenario_db \<lparr> snapshots := scenario_snapshots \<rparr>) \<and>
   row_cumulative_planned_cost (scenario_rows ! 1) =
     q2 (row_cumulative_planned_cost (scenario_rows ! 0) + row_planned_cost (scenario_rows ! 1)) \<and>
   row_cumulative_planned_cost (scenario_rows ! 1) = 900 \<and>
   snap_cumulative_actual_cost (scenario_snapshots ! 1) =
     q2 (snap_cumulative_actual_cost (scenario_snapshots ! 0) + snap_actual_cost (scenario_snapshots ! 1)) \<and>
   snap_cumulative_actual_cost (scenario_snapshots ! 1) = 550"
proof -
  have l: "(1::nat) < length scenario_rows" "(1::nat) < length scenario_snapshots"
    by (simp_all add: scenario_rows_def scenario_snapshots_def)
  from cumulative_fields_round_after_each_addition[of default_settings scenario_db scenario_project
      "Date 2026 1 1" "Date 2026 3 1" scenario_rows "''p1''" scenario_snapshots
      "scenario_db \<lparr> snapshots := scenario_snapshots \<rparr>"]
    scenario_rollups scenario_refresh l
  have "row_cumulative_planned_cost (scenario_rows ! 1) =
     q2 (row_cumulative_planned_cost (scenario_rows ! 0) + row_planned_cost (scenario_rows ! 1))"
    and "snap_cumulative_actual_cost (scenario_snapshots ! 1) =
     q2 (snap_cumulative_actual_cost (scenario_snapshots ! 0) + snap_actual_cost (scenario_snapshots ! 1))"
    by auto
  moreover have "row_cumulative_planned_cost (scenario_rows ! 1) = 900"
    "snap_cumulative_actual_cost (scenario_snapshots ! 1) = 550"
    by (simp_all add: scenario_rows_def scenario_snapshots_def)
  ultimately show ?thesis using scenario_rollups scenario_refresh by simp
qed

subsection \<open>One row per calendar month\<close>

lemma calendar_months_props:
  assumes "month_start f" "month_start t"
  shows "set (calendar_months f t) = {m. month_start m \<and> f \<le> m \<and> m \<le> t}"
    and "distinct (calendar_months f t)"
    and "sorted (calendar_months f t)"
proof -
  have bf: "13 \<le> month_index f" and bt: "month_index t \<le> 9999 * 12 + 12"
    using assms by (auto simp: month_start_def valid_date_def month_index_def MAXYEAR_def)
  have inr: "\<And>k. k \<in> set [month_index f ..< month_index t + 1] \<Longrightarrow>
     month_start (nth_month k) \<and> month_index (nth_month k) = k"
    using nth_month_props bf bt by auto
  show "set (calendar_months f t) = {m. month_start m \<and> f \<le> m \<and> m \<le> t}"
  proof (intro set_eqI iffI)
    fix m assume "m \<in> set (calendar_months f t)"
    then obtain k where k: "m = nth_month k" "month_index f \<le> k" "k \<le> month_index t"
      by (auto simp: calendar_months_def)
    then have "k \<in> set [month_index f ..< month_index t + 1]" by auto
    from inr[OF this] k(1) have "month_start m" "month_index m = k" by simp_all
    then show "m \<in> {m. month_start m \<and> f \<le> m \<and> m \<le> t}"
      using k assms by (simp add: month_start_le_iff)
  next
    fix m assume "m \<in> {m. month_start m \<and> f \<le> m \<and> m \<le> t}"
    then have m: "month_start m" "month_index f \<le> month_index m" "month_index m \<le> month_index t"
      using assms by (auto simp: month_start_le_iff)
    then have "month_index m \<in> set [month_index f ..< month_index t + 1]" by auto
    then have "nth_month (month_index m) \<in> nth_month ` set [month_index f ..< month_index t + 1]"
      by (rule imageI)
    then have "nth_month (month_index m) \<in> set (calendar_months f t)"
      unfolding calendar_months_def set_map .
    then show "m \<in> set (calendar_months f t)" using nth_month_index[OF m(1)] by simp
  qed
  have inj: "inj_on nth_month (set [month_index f ..< month_index t + 1])"
    by (rule inj_onI) (metis inr)
  show "distinct (calendar_months f t)"
    unfolding calendar_months_def distinct_map using inj distinct_upt by blast
  have "sorted_wrt (\<lambda>a b. nth_month a \<le> nth_month b) [month_index f ..< month_index t + 1]"
  proof (rule sorted_wrt_mono_rel[of _ "(<)"])
    fix a b assume "a \<in> set [month_index f ..< month_index t + 1]"
      "b \<in> set [month_index f ..< month_index t + 1]" "a < b"
    then show "nth_month a \<le> nth_month b"
      using inr[of a] inr[of b] by (simp add: month_start_le_iff)
  next
    show "sorted_wrt (<) [month_index f ..< month_index t + 1]" by (rule sorted_wrt_upt)
  qed
  then show "sorted (calendar_months f t)"
    unfolding calendar_months_def sorted_map .
qed

lemma init_buckets_default:
  "(case init_buckets months m of None \<Rightarrow> zero_bucket | Some b \<Rightarrow> b) = zero_bucket"
proof -
  have "\<And>m0. (case foldl (\<lambda>mp mth. mp(mth \<mapsto> zero_bucket)) m0 months m of None \<Rightarrow> zero_bucket | Some b \<Rightarrow> b)
     = (if m \<in> set months then zero_bucket else (case m0 m of None \<Rightarrow> zero_bucket | Some b \<Rightarrow> b))"
    by (induction months) auto
  then show ?thesis by (simp add: init_buckets_def)
qed

lemma foldl_add_cost_row_other:
  "\<forall>r \<in> set rows. cr_month_start r \<noteq> m \<Longrightarrow> foldl add_cost_row bm rows m = bm m"
  by (induction rows arbitrary: bm) (auto simp: add_cost_row_def Let_def)

lemma rollup_loop_row:
  "r \<in> set (rollup_loop bm invs revs months cp ca cr []) \<Longrightarrow>
   \<exists>cp' ca' cr'. r = month_row bm invs revs (row_month_start r) cp' ca' cr'"
proof (induction months arbitrary: cp ca cr)
  case Nil
  then show ?case by simp
next
  case (Cons m ms)
  from Cons.prems consider "r = month_row bm invs revs m cp ca cr"
    | "r \<in> set (rollup_loop bm invs revs ms
         (row_cumulative_planned_cost (month_row bm invs revs m cp ca cr))
         (row_cumulative_actual_cost (month_row bm invs revs m cp ca cr))
         (row_cumulative_revenue (month_row bm invs revs m cp ca cr)) [])"
    unfolding rollup_loop_Cons by auto
  then show ?case
  proof cases
    case 1
    then have "row_month_start r = m" by (simp add: month_row_def Let_def)
    with 1 have "r = month_row bm invs revs (row_month_start r) cp ca cr" by simp
    then show ?thesis by (intro exI)
  next
    case 2
    then show ?thesis by (rule Cons.IH)
  qed
qed

text \<open>
  For a range that ends before December 9999 the rollup builder returns one row for each
  calendar month of the range, in ascending order, and a month without effort entries,
  invoices and revenues has zero in all six monthly fields.
\<close>

lemma project_monthly_rollups_rows:
  assumes "month_start from_month" "month_start to_month"
    and "to_month < Date 9999 12 1"
  shows "\<exists>rows. project_monthly_rollups st d p from_month to_month = Inr rows \<and>
           map row_month_start rows = calendar_months from_month to_month \<and>
           set (calendar_months from_month to_month) =
             {m. month_start m \<and> from_month \<le> m \<and> m \<le> to_month} \<and>
           distinct (map row_month_start rows) \<and> sorted (map row_month_start rows) \<and>
           (\<forall>r \<in> set rows.
              (\<forall>e \<in> set (effort_entries d). effort_month_start e \<noteq> row_month_start r) \<and>
              (\<forall>i \<in> set (invoices d). invoice_month_start i \<noteq> row_month_start r) \<and>
              (\<forall>v \<in> set (revenues d). revenue_month_start v \<noteq> row_month_start r) \<longrightarrow>
              row_planned_person_days r = 0 \<and> row_actual_person_days r = 0 \<and>
              row_planned_cost r = 0 \<and> row_actual_cost r = 0 \<and>
              row_invoice_amount r = 0 \<and> row_revenue_amount r = 0)"
proof -
  have vf: "valid_date from_month" and vt: "valid_date to_month"
    using assms by (simp_all add: month_start_def)
  have "month_start (Date 9999 12 1)"
    by (simp add: month_start_def valid_date_def MAXYEAR_def days_in_month_def)
  then have b: "month_index to_month < month_index (Date 9999 12 1)"
    using assms(2,3) month_start_le_iff[of "Date 9999 12 1" to_month] by (simp add: not_le[symmetric])
  have ms: "month_sequence from_month to_month = Inr (calendar_months from_month to_month)"
    by (rule month_sequence_total[OF vf vt b])
  define cost_rows where "cost_rows = project_cost_entry_rows st d p from_month to_month None None"
  define bm where "bm = foldl add_cost_row (init_buckets (calendar_months from_month to_month)) cost_rows"
  define rows where "rows = rollup_loop bm (aggregate_invoices_by_month d (project_id p))
      (aggregate_revenues_by_month d (project_id p)) (calendar_months from_month to_month) ZERO ZERO ZERO []"
  have res: "project_monthly_rollups st d p from_month to_month = Inr rows"
    by (simp add: project_monthly_rollups_def ms Let_def rows_def bm_def cost_rows_def)
  have months: "map row_month_start rows = calendar_months from_month to_month"
    by (simp add: rows_def rollup_loop_months)
  have zero: "row_planned_person_days r = 0 \<and> row_actual_person_days r = 0 \<and>
              row_planned_cost r = 0 \<and> row_actual_cost r = 0 \<and>
              row_invoice_amount r = 0 \<and> row_revenue_amount r = 0"
    if r: "r \<in> set rows"
      and ne: "\<forall>e \<in> set (effort_entries d). effort_month_start e \<noteq> row_month_start r"
      and ni: "\<forall>i \<in> set (invoices d). invoice_month_start i \<noteq> row_month_start r"
      and nv: "\<forall>v \<in> set (revenues d). revenue_month_start v \<noteq> row_month_start r" for r
  proof -
    let ?m = "row_month_start r"
    have "\<forall>c \<in> set cost_rows. cr_month_start c \<noteq> ?m"
      using ne by (auto simp: cost_rows_def project_cost_entry_rows_def Let_def
          list_effort_entries_filtered_def cost_entry_row_def)
    then have "bm ?m = init_buckets (calendar_months from_month to_month) ?m"
      unfolding bm_def by (rule foldl_add_cost_row_other)
    then have bz: "(case bm ?m of None \<Rightarrow> zero_bucket | Some b \<Rightarrow> b) = zero_bucket"
      by (simp add: init_buckets_default)
    have iz: "aggregate_invoices_by_month d (project_id p) ?m = None"
      using ni by (simp add: aggregate_invoices_by_month_def filter_empty_conv)
    have rz: "aggregate_revenues_by_month d (project_id p) ?m = None"
      using nv by (simp add: aggregate_revenues_by_month_def filter_empty_conv)
    from rollup_loop_row[OF r[unfolded rows_def]] obtain cp' ca' cr' where
      "r = month_row bm (aggregate_invoices_by_month d (project_id p))
             (aggregate_revenues_by_month d (project_id p)) ?m cp' ca' cr'" by blast
    then have "row_planned_person_days r = q2 0 \<and> row_actual_person_days r = q2 0 \<and>
              row_planned_cost r = q2 0 \<and> row_actual_cost r = q2 0 \<and>
              row_invoice_amount r = q2 0 \<and> row_revenue_amount r = q2 0"
      by (metis (no_types, lifting) month_row_def bz iz rz zero_bucket_def ZERO_def
          bucket.select_convs rollup_row.select_convs option.simps(4))
    then show ?thesis by (simp add: q2_zero)
  qed
  show ?thesis
    using res months zero calendar_months_props[OF assms(1,2)] by (intro exI[of _ rows]) auto
qed

text \<open>
  Claim C4 says that every valid range yields one row per calendar month. A range that
  ends in December 9999, the last month a date can hold, is valid for every caller-facing
  check, but \<open>month_sequence\<close> builds the successor of each month it appends before it tests
  the loop condition, and the successor of December 9999 does not exist: the rollup builder
  raises \<open>ValueError\<close> and returns no rows.
\<close>

theorem project_monthly_rollups_last_month_raises:
  "project_monthly_rollups st d p (Date 9999 12 1) (Date 9999 12 1) = Inl ValueError"
proof -
  have "month_sequence_loop (Date 9999 12 1) (Date 9999 12 1) [] = Inl ValueError"
    by (subst month_sequence_loop.simps)
       (simp add: py_date_def valid_date_def MAXYEAR_def days_in_month_def)
  then have "month_sequence (Date 9999 12 1) (Date 9999 12 1) = Inl ValueError"
    by (simp add: month_sequence_def py_date_def valid_date_def MAXYEAR_def days_in_month_def)
  then show ?thesis by (simp add: project_monthly_rollups_def)
qed

subsection \<open>Decimal arithmetic\<close>

lemma round_half_even_close: "\<bar>of_int (round_half_even y) - y\<bar> \<le> 1 / 2"
proof -
  have f: "of_int \<lfloor>y\<rfloor> \<le> y" "y < of_int \<lfloor>y\<rfloor> + 1" by linarith+
  show ?thesis using f by (auto simp: round_half_even_def Let_def)
qed

lemma round_half_even_unique:
  assumes "\<bar>y - of_int r\<bar> < 1 / 2"
  shows "round_half_even y = r"
proof -
  have c: "\<bar>of_int (round_half_even y) - y\<bar> \<le> 1 / 2" by (rule round_half_even_close)
  have "\<bar>(of_int (round_half_even y) :: rat) - of_int r\<bar> < 1"
    using assms c by linarith
  then have "\<bar>(of_int (round_half_even y - r) :: rat)\<bar> < 1" by simp
  then have "\<bar>round_half_even y - r\<bar> < 1"
    by (metis of_int_abs of_int_less_1_iff)
  then show ?thesis by simp
qed

lemma adjusted_le:
  assumes "x \<noteq> 0"
  shows "10 powi (adjusted x) \<le> \<bar>x\<bar>"
proof -
  obtain a b where q: "quotient_of \<bar>x\<bar> = (a, b)" by (cases "quotient_of \<bar>x\<bar>")
  have b: "0 < b" using quotient_of_denom_pos[OF q] .
  have x: "\<bar>x\<bar> = of_int a / of_int b" using quotient_of_div[OF q] .
  have a: "0 < a"
  proof -
    have "0 < \<bar>x\<bar>" using assms by simp
    then have "0 < (of_int a :: rat) / of_int b" using x by simp
    then show ?thesis using b by (simp add: zero_less_divide_iff)
  qed
  define la where "la = floorlog 10 (nat a)"
  define lb where "lb = floorlog 10 (nat b)"
  have ba: "10 ^ (la - 1) \<le> nat a"
    using floorlog_bounds[of "nat a" 10] a by (simp add: la_def)
  have bb: "nat b < 10 ^ lb"
    using floorlog_bounds[of "nat b" 10] b by (simp add: lb_def)
  have la1: "1 \<le> la" using a by (simp add: la_def floorlog_def)
  have low: "(10::rat) powi (int la - int lb - 1) \<le> \<bar>x\<bar>"
  proof -
    have "(10::rat) powi (int la - int lb - 1) = 10 powi (int (la - 1) - int lb)"
      using la1 by (simp add: of_nat_diff algebra_simps)
    also have "\<dots> = 10 ^ (la - 1) / 10 ^ lb"
      by (simp add: power_int_diff)
    also have "\<dots> \<le> of_int a / of_int b"
    proof (rule frac_le)
      show "(0::rat) \<le> of_int a" using a by simp
      have "(of_nat (10 ^ (la - 1)) :: rat) \<le> of_nat (nat a)" using ba by (simp only: of_nat_le_iff)
      then show "(10::rat) ^ (la - 1) \<le> of_int a" using a by simp
      show "(0::rat) < of_int b" using b by simp
      have "(of_nat (nat b) :: rat) < of_nat (10 ^ lb)" using bb by (simp only: of_nat_less_iff)
      then show "(of_int b :: rat) \<le> 10 ^ lb" using b by simp
    qed
    finally show ?thesis using x by simp
  qed
  show ?thesis
    unfolding adjusted_def q using low by (simp add: Let_def la_def lb_def)
qed

lemma adjusted_less:
  assumes "x \<noteq> 0" "\<bar>x\<bar> < 10 powi k"
  shows "adjusted x < k"
proof (rule ccontr)
  assume "\<not> adjusted x < k"
  then have "k \<le> adjusted x" by simp
  then have "(10::rat) powi k \<le> 10 powi (adjusted x)"
    by (rule power_int_increasing) simp
  with adjusted_le[OF assms(1)] assms(2) show False by simp
qed




lemma adjusted_gt:
  assumes "x \<noteq> 0"
  shows "\<bar>x\<bar> < 10 powi (adjusted x + 1)"
proof -
  obtain a b where q: "quotient_of \<bar>x\<bar> = (a, b)" by (cases "quotient_of \<bar>x\<bar>")
  have b: "0 < b" using quotient_of_denom_pos[OF q] .
  have x: "\<bar>x\<bar> = of_int a / of_int b" using quotient_of_div[OF q] .
  have a: "0 < a"
  proof -
    have "0 < \<bar>x\<bar>" using assms by simp
    then have "0 < (of_int a :: rat) / of_int b" using x by simp
    then show ?thesis using b by (simp add: zero_less_divide_iff)
  qed
  define la where "la = floorlog 10 (nat a)"
  define lb where "lb = floorlog 10 (nat b)"
  have ba: "nat a < 10 ^ la"
    using floorlog_bounds[of "nat a" 10] a by (simp add: la_def)
  have bb: "10 ^ (lb - 1) \<le> nat b"
    using floorlog_bounds[of "nat b" 10] b by (simp add: lb_def)
  have lb1: "1 \<le> lb" using b by (simp add: lb_def floorlog_def)
  have up: "\<bar>x\<bar> < (10::rat) powi (int la - int lb + 1)"
  proof -
    have "\<bar>x\<bar> = of_int a / of_int b" by (rule x)
    also have "\<dots> < 10 ^ la / 10 ^ (lb - 1)"
    proof (rule frac_less)
      show "(0::rat) \<le> of_int a" using a by simp
      have "(of_nat (nat a) :: rat) < of_nat (10 ^ la)" using ba by (simp only: of_nat_less_iff)
      then show "(of_int a :: rat) < 10 ^ la" using a by simp
      show "(0::rat) < 10 ^ (lb - 1)" by simp
      have "(of_nat (10 ^ (lb - 1)) :: rat) \<le> of_nat (nat b)" using bb by (simp only: of_nat_le_iff)
      then show "(10::rat) ^ (lb - 1) \<le> of_int b" using b by simp
    qed
    also have "\<dots> = 10 powi (int la - int (lb - 1))"
      by (simp add: power_int_diff)
    also have "\<dots> = 10 powi (int la - int lb + 1)"
      using lb1 by (simp add: of_nat_diff algebra_simps)
    finally show ?thesis .
  qed
  show ?thesis
    unfolding adjusted_def q using up by (simp add: Let_def la_def lb_def not_le)
qed

lemma adjusted_eq:
  assumes "10 powi e \<le> \<bar>x\<bar>" "\<bar>x\<bar> < 10 powi (e + 1)"
  shows "adjusted x = e"
proof -
  have nz: "x \<noteq> 0"
  proof
    assume "x = 0"
    then have "(10::rat) powi e \<le> 0" using assms(1) by simp
    moreover have "(0::rat) < 10 powi e" by simp
    ultimately show False by simp
  qed
  have "adjusted x < e + 1" using nz assms(2) by (rule adjusted_less)
  moreover have "e < adjusted x + 1"
  proof (rule ccontr)
    assume "\<not> e < adjusted x + 1"
    then have "adjusted x + 1 \<le> e" by simp
    then have "(10::rat) powi (adjusted x + 1) \<le> 10 powi e"
      by (rule power_int_increasing) simp
    with adjusted_gt[OF nz] assms(1) show False by simp
  qed
  ultimately show ?thesis by simp
qed

lemma context_round_eq:
  assumes "10 powi e \<le> \<bar>x\<bar>" "\<bar>x\<bar> < 10 powi (e + 1)"
    and "\<bar>x / 10 powi (e - 27) - of_int r\<bar> < 1 / 2"
  shows "context_round x = of_int r * 10 powi (e - 27)"
proof -
  have nz: "x \<noteq> 0"
  proof
    assume "x = 0"
    then have "(10::rat) powi e \<le> 0" using assms(1) by simp
    moreover have "(0::rat) < 10 powi e" by simp
    ultimately show False by simp
  qed
  have a: "adjusted x = e" using assms(1,2) by (rule adjusted_eq)
  have r: "round_half_even (x / 10 powi (e - 27)) = r"
    using assms(3) by (rule round_half_even_unique)
  show ?thesis
    using nz by (simp add: context_round_def a prec_def Let_def r)
qed


subsection \<open>Per-day value and cost of an entry\<close>

lemma q2_close: "\<bar>q2 x - x\<bar> \<le> 1 / 200"
proof -
  have "\<bar>(of_int (round_half_even (x * 100)) - x * 100) / 100\<bar> \<le> (1 / 2) / 100"
    using round_half_even_close[of "x * 100"] by (simp add: abs_divide)
  moreover have "(of_int (round_half_even (x * 100)) - x * 100) / 100 = q2 x - x"
    by (simp add: q2_def diff_divide_distrib)
  ultimately show ?thesis by simp
qed









lemma long_rate_per_day:
  "rate_value_per_day default_settings long_rate = 2 / 100"
proof -
  have "context_round
          (rate_value long_rate / of_int (cost_fte_month_working_days default_settings)) =
        of_int 1500000000000000000000000000 * 10 powi (- 2 - 27)"
    by (rule context_round_eq) (simp_all add: long_rate_def default_settings_def)
  then have d: "decimal_truediv (rate_value long_rate)
                  (of_int (cost_fte_month_working_days default_settings)) = 3 / 200"
    by (simp add: decimal_truediv_def)
  have u: "rate_unit long_rate \<noteq> DAY" by (simp add: long_rate_def)
  have "\<lfloor>(3::rat) / 2\<rfloor> = 1" by (rule floor_unique) simp_all
  then have "round_half_even (3 / 2) = 2" by (simp add: round_half_even_def Let_def)
  then have q: "q2 (3 / 200) = 2 / 100" by (simp add: q2_def)
  show ?thesis
    unfolding rate_value_per_day_def d using u q by simp
qed

lemma long_rate_per_day_value:
  "per_day_value 20 long_rate = 1 / 100"
proof -
  have "round_half_even (2999999999999999999999999999999 / 10 ^ 31 / 20 * 100) = 1"
    by (rule round_half_even_unique) simp
  then show ?thesis by (simp add: per_day_value_def long_rate_def q2_def)
qed




text \<open>
  The per-day value of a monthly rate as the claim states it, for every resolved rate, fails
  for a rate value with more decimals than the column holds: \<open>long_rate\<close> divided by the
  default 20 working days is 0.01499999999999999999999999999999(95); the division rounds it
  to 0.01500000000000000000000000000 first, which quantizes to 0.02, where the quotient
  rounded to two decimals is 0.01.
\<close>

theorem per_day_value_of_a_long_rate:
  "rate_unit long_rate = FTE_MONTH \<and>
   rate_value_per_day default_settings long_rate = 2 / 100 \<and>
   per_day_value (cost_fte_month_working_days default_settings) long_rate = 1 / 100"
  using long_rate_per_day long_rate_per_day_value
  by (simp add: default_settings_def long_rate_def)

subsection \<open>Storing snapshots\<close>







lemma map_filter_update_first:
  "(\<And>x. g (f x) = g x) \<Longrightarrow> (\<And>x. R (f x) = R x) \<Longrightarrow>
   map g (filter R (update_first P f xs)) = map g (filter R xs)"
  by (induction xs) auto

lemma find_None_iff2: "find P xs = None \<longleftrightarrow> (\<forall>x \<in> set xs. \<not> P x)"
  by (induction xs) auto

lemma overwrite_snapshot_keys:
  "snapshot_project_id (overwrite_snapshot v s) = snapshot_project_id s"
  "snapshot_month_start (overwrite_snapshot v s) = snapshot_month_start s"
  by (simp_all add: overwrite_snapshot_def)



lemma store_snapshots_Cons:
  "store_snapshots d (v # vs) = store_snapshots (snd (upsert_snapshot d v)) vs"
  by (simp add: store_snapshots_def)











subsection \<open>Idempotence of the refresh\<close>


lemma get_project_SomeD:
  "get_project d pid = Some p \<Longrightarrow> project_id p = pid \<and> p \<in> set (projects d)"
  by (auto simp: get_project_def dest: find_SomeD)



subsection \<open>The snapshot set after a refresh\<close>

lemma snapshot_months_upsert:
  assumes "snapshot_project_id v = pid"
  shows "snapshot_months (snd (upsert_snapshot d v)) pid =
         (if snapshot_month_start v \<in> set (snapshot_months d pid) then snapshot_months d pid
          else snapshot_months d pid @ [snapshot_month_start v])"
proof (cases "get_snapshot d (snapshot_project_id v) (snapshot_month_start v)")
  case None
  then have "\<forall>s \<in> set (snapshots d).
      \<not> (snapshot_project_id s = pid \<and> snapshot_month_start s = snapshot_month_start v)"
    using assms by (simp add: get_snapshot_def find_None_iff2)
  then have "snapshot_month_start v \<notin> set (snapshot_months d pid)"
    by (auto simp: snapshot_months_def)
  then show ?thesis
    using None assms by (simp add: upsert_snapshot_def add_snapshot_def snapshot_months_def)
next
  case (Some existing)
  then have "existing \<in> set (snapshots d)" "snapshot_project_id existing = pid"
    "snapshot_month_start existing = snapshot_month_start v"
    using assms by (auto simp: get_snapshot_def dest: find_SomeD)
  then have "snapshot_month_start v \<in> set (snapshot_months d pid)"
    unfolding snapshot_months_def by (metis (mono_tags, lifting) image_eqI mem_Collect_eq set_filter set_map)
  moreover have "snapshot_months (snd (upsert_snapshot d v)) pid = snapshot_months d pid"
    using Some
    by (simp add: upsert_snapshot_def snapshot_months_def map_filter_update_first
        overwrite_snapshot_keys)
  ultimately show ?thesis by simp
qed

lemma snapshot_months_store:
  "\<forall>v \<in> set vs. snapshot_project_id v = pid \<Longrightarrow>
   set (snapshot_months (store_snapshots d vs) pid) =
     set (snapshot_months d pid) \<union> set (map snapshot_month_start vs) \<and>
   (distinct (snapshot_months d pid) \<longrightarrow> distinct (snapshot_months (store_snapshots d vs) pid))"
proof (induction vs arbitrary: d)
  case Nil
  then show ?case by (simp add: store_snapshots_def)
next
  case (Cons v vs)
  have v: "snapshot_project_id v = pid" and rest: "\<forall>v \<in> set vs. snapshot_project_id v = pid"
    using Cons.prems by simp_all
  show ?case
    unfolding store_snapshots_Cons
    using Cons.IH[OF rest, of "snd (upsert_snapshot d v)"] snapshot_months_upsert[OF v, of d]
    by (auto split: if_splits)
qed

lemma snapshot_months_delete:
  "snapshot_months (delete_snapshots_outside_range d pid s e) pid =
   filter (\<lambda>m. s \<le> m \<and> m \<le> e) (snapshot_months d pid)"
  by (auto simp: snapshot_months_def delete_snapshots_outside_range_def filter_map comp_def
      not_less intro!: arg_cong[where f="map snapshot_month_start"] filter_cong)

lemma filter_update_first_other:
  "(\<And>x. P x \<Longrightarrow> \<not> R x \<and> \<not> R (f x)) \<Longrightarrow> filter R (update_first P f xs) = filter R xs"
  by (induction xs) auto

lemma other_project_upsert:
  assumes "snapshot_project_id v = pid" "q \<noteq> pid"
  shows "filter (\<lambda>s. snapshot_project_id s = q) (snapshots (snd (upsert_snapshot d v))) =
         filter (\<lambda>s. snapshot_project_id s = q) (snapshots d)"
proof (cases "get_snapshot d (snapshot_project_id v) (snapshot_month_start v)")
  case None
  then show ?thesis using assms by (simp add: upsert_snapshot_def add_snapshot_def)
next
  case (Some existing)
  have "filter (\<lambda>s. snapshot_project_id s = q)
          (update_first (\<lambda>s. snapshot_project_id s = snapshot_project_id v \<and>
                             snapshot_month_start s = snapshot_month_start v)
             (overwrite_snapshot v) (snapshots d))
        = filter (\<lambda>s. snapshot_project_id s = q) (snapshots d)"
    by (rule filter_update_first_other) (use assms in \<open>auto simp: overwrite_snapshot_keys\<close>)
  then show ?thesis using Some by (simp add: upsert_snapshot_def)
qed

lemma other_project_store:
  "\<forall>v \<in> set vs. snapshot_project_id v = pid \<Longrightarrow> q \<noteq> pid \<Longrightarrow>
   filter (\<lambda>s. snapshot_project_id s = q) (snapshots (store_snapshots d vs)) =
   filter (\<lambda>s. snapshot_project_id s = q) (snapshots d)"
proof (induction vs arbitrary: d)
  case Nil
  then show ?case by (simp add: store_snapshots_def)
next
  case (Cons v vs)
  then show ?case
    unfolding store_snapshots_Cons by (simp add: other_project_upsert)
qed

lemma other_project_delete:
  "q \<noteq> pid \<Longrightarrow>
   filter (\<lambda>s. snapshot_project_id s = q) (snapshots (delete_snapshots_outside_range d pid s e)) =
   filter (\<lambda>s. snapshot_project_id s = q) (snapshots d)"
  by (auto simp: delete_snapshots_outside_range_def intro!: filter_cong)

text \<open>
  Claim C6. After a refresh of a project has completed, the months of the project's snapshot
  rows are exactly the calendar months of the project's range, each once: rows of months
  outside the range, as a range shrink leaves them, are gone, and the snapshot rows of other
  projects are as before.
\<close>

theorem refresh_leaves_one_snapshot_per_month:
  assumes "project_months_valid d" and "snapshot_keys_valid d pid"
    and "refresh_project_snapshots st d pid = Inr (snaps, d')"
  shows "\<exists>p. get_project d pid = Some p \<and>
           set (snapshot_months d' pid) =
             {m. month_start m \<and> start_month p \<le> m \<and> m \<le> end_month p} \<and>
           distinct (snapshot_months d' pid) \<and>
           (\<forall>q. q \<noteq> pid \<longrightarrow>
              filter (\<lambda>s. snapshot_project_id s = q) (snapshots d') =
              filter (\<lambda>s. snapshot_project_id s = q) (snapshots d))"
proof -
  from refresh_project_snapshots_Inr[OF assms(3)] obtain p months totals where
    gp: "get_project d pid = Some p" and
    ms: "month_sequence (start_month p) (end_month p) = Inr months" and
    snaps: "snaps = month_snapshots (project_id p) totals (aggregate_revenues_by_month d (project_id p))
               (aggregate_invoices_by_month d (project_id p)) months ZERO ZERO ZERO" and
    d': "d' = delete_snapshots_outside_range (store_snapshots d snaps) (project_id p)
            (start_month p) (end_month p)"
    by metis
  have pid: "project_id p = pid" and pin: "p \<in> set (projects d)"
    using get_project_SomeD[OF gp] by simp_all
  have vs: "month_start (start_month p)" and ve: "month_start (end_month p)"
    using assms(1) pin by (auto simp: project_months_valid_def list_all_iff)
  have months: "months = calendar_months (start_month p) (end_month p)"
    using month_sequence_result[OF _ _ ms] vs ve by (simp add: month_start_def)
  have proj: "\<forall>v \<in> set snaps. snapshot_project_id v = pid"
    using month_snapshots_project pid unfolding snaps by blast
  have sm: "map snapshot_month_start snaps = calendar_months (start_month p) (end_month p)"
    by (simp add: snaps month_snapshots_months months)
  have old: "distinct (snapshot_months d pid)" "\<forall>m \<in> set (snapshot_months d pid). month_start m"
    using assms(2) by (simp_all add: snapshot_keys_valid_def list_all_iff)
  from snapshot_months_store[OF proj, of d] old(1) sm
  have st: "set (snapshot_months (store_snapshots d snaps) pid) =
        set (snapshot_months d pid) \<union> set (calendar_months (start_month p) (end_month p))"
    and sd: "distinct (snapshot_months (store_snapshots d snaps) pid)"
    by simp_all
  have dm: "snapshot_months d' pid =
      filter (\<lambda>m. start_month p \<le> m \<and> m \<le> end_month p) (snapshot_months (store_snapshots d snaps) pid)"
    unfolding d' pid by (rule snapshot_months_delete)
  have "set (snapshot_months d' pid) = {m. month_start m \<and> start_month p \<le> m \<and> m \<le> end_month p}"
    unfolding dm using st old(2) calendar_months_props(1)[OF vs ve] by auto
  moreover have "distinct (snapshot_months d' pid)"
    unfolding dm using sd by simp
  moreover have "filter (\<lambda>s. snapshot_project_id s = q) (snapshots d') =
              filter (\<lambda>s. snapshot_project_id s = q) (snapshots d)" if "q \<noteq> pid" for q
    unfolding d' pid using other_project_delete[OF that] other_project_store[OF proj that] by simp
  ultimately show ?thesis using gp by blast
qed

theorem refresh_leaves_one_snapshot_per_month_witness:
  "project_months_valid scenario_db_after_shrink \<and>
   snapshot_keys_valid scenario_db_after_shrink ''p1'' \<and>
   snapshot_months scenario_db_after_shrink ''p1'' = [Date 2026 4 1] \<and>
   refresh_project_snapshots default_settings scenario_db_after_shrink ''p1'' =
     Inr (scenario_snapshots, scenario_db \<lparr> snapshots := scenario_snapshots \<rparr>) \<and>
   set (snapshot_months (scenario_db \<lparr> snapshots := scenario_snapshots \<rparr>) ''p1'') =
     {m. month_start m \<and> Date 2026 1 1 \<le> m \<and> m \<le> Date 2026 3 1} \<and>
   snapshot_months (scenario_db \<lparr> snapshots := scenario_snapshots \<rparr>) ''p1'' =
     [Date 2026 1 1, Date 2026 2 1, Date 2026 3 1]"
proof -
  have h1: "project_months_valid scenario_db_after_shrink"
    by (simp add: project_months_valid_def scenario_db_after_shrink_def scenario_db_def
        scenario_project_def month_start_def valid_date_def MAXYEAR_def days_in_month_def)
  have h0: "snapshot_months scenario_db_after_shrink ''p1'' = [Date 2026 4 1]"
    by (simp add: snapshot_months_def scenario_db_after_shrink_def)
  have h2: "snapshot_keys_valid scenario_db_after_shrink ''p1''"
    by (simp add: snapshot_keys_valid_def h0 month_start_def valid_date_def MAXYEAR_def
        days_in_month_def)
  have h3: "refresh_project_snapshots default_settings scenario_db_after_shrink ''p1'' =
     Inr (scenario_snapshots, scenario_db \<lparr> snapshots := scenario_snapshots \<rparr>)"
    by code_simp
  have gp: "get_project scenario_db_after_shrink ''p1'' = Some scenario_project"
    by (simp add: get_project_def scenario_db_after_shrink_def scenario_db_def scenario_project_def)
  have m: "snapshot_months (scenario_db \<lparr> snapshots := scenario_snapshots \<rparr>) ''p1'' =
     [Date 2026 1 1, Date 2026 2 1, Date 2026 3 1]"
    by (simp add: snapshot_months_def scenario_snapshots_def)
  from refresh_leaves_one_snapshot_per_month[OF h1 h2 h3] gp
  have "set (snapshot_months (scenario_db \<lparr> snapshots := scenario_snapshots \<rparr>) ''p1'') =
     {m. month_start m \<and> Date 2026 1 1 \<le> m \<and> m \<le> Date 2026 3 1}"
    by (auto simp: scenario_project_def)
  with h0 h1 h2 h3 m show ?thesis by simp
qed

end
